theory Spec2Isabelle
  imports Main
begin

section \<open>JavaScript values\<close>

text \<open>
  The server of \<^verbatim>\<open>src/server.js\<close> handles JSON: request bodies parsed by
  \<^verbatim>\<open>express.json()\<close>, response bodies written by \<^verbatim>\<open>res.json\<close>, decoded token
  payloads and the reply of the model API. A JavaScript value is a \<open>json\<close>; the handlers
  only ever test a number for being zero, so numbers are integers here.
\<close>

datatype json =
    JUndefined
  | JNull
  | JBool bool
  | JNum int
  | JStr string
  | JArr "json list"
  | JObj "(string \<times> json) list"

text \<open>An object is the list of its properties. \<^verbatim>\<open>req.body\<close> is one: the object that
  \<^verbatim>\<open>express.json()\<close> parsed, without properties when the request carried no JSON.\<close>

type_synonym obj = "(string \<times> json) list"

text \<open>What \<^verbatim>\<open>!v\<close> negates: \<^verbatim>\<open>undefined\<close>, \<^verbatim>\<open>null\<close>, \<^verbatim>\<open>false\<close>, \<^verbatim>\<open>0\<close> and
  \<^verbatim>\<open>""\<close> are falsy, every array and object is truthy.\<close>

fun truthy :: "json \<Rightarrow> bool" where
  "truthy JUndefined = False"
| "truthy JNull = False"
| "truthy (JBool b) = b"
| "truthy (JNum n) = (n \<noteq> 0)"
| "truthy (JStr s) = (s \<noteq> [])"
| "truthy (JArr xs) = True"
| "truthy (JObj kvs) = True"

text \<open>A thrown JavaScript error: its \<^verbatim>\<open>code\<close> property (\<^verbatim>\<open>undefined\<close> unless the
  database driver set an SQLSTATE) and its \<^verbatim>\<open>message\<close>.\<close>

datatype js_error = JsError (err_code: json) (err_message: string)

definition type_error :: "string \<Rightarrow> js_error" where
  "type_error k =
     JsError JUndefined (''Cannot read properties of undefined (reading '' @ [CHR 0x27] @ k @ [CHR 0x27] @ '')'')"

text \<open>\<^verbatim>\<open>const { k } = req.body\<close>: the own property \<open>k\<close> of a parsed JSON object, or
  \<^verbatim>\<open>undefined\<close>.\<close>

definition field :: "obj \<Rightarrow> string \<Rightarrow> json" where
  "field b k = (case map_of b k of None \<Rightarrow> JUndefined | Some v \<Rightarrow> v)"

text \<open>\<^verbatim>\<open>v.k\<close> for one of the property names the server reads (\<^verbatim>\<open>content\<close>,
  \<^verbatim>\<open>type\<close>, \<^verbatim>\<open>text\<close>): a TypeError on \<^verbatim>\<open>undefined\<close> and \<^verbatim>\<open>null\<close>, the property of
  an object, \<^verbatim>\<open>undefined\<close> on every other value.\<close>

fun get_prop :: "json \<Rightarrow> string \<Rightarrow> js_error + json" where
  "get_prop JUndefined k = Inl (type_error k)"
| "get_prop JNull k = Inl (type_error k)"
| "get_prop (JObj kvs) k = Inr (field kvs k)"
| "get_prop v k = Inr JUndefined"

text \<open>\<^verbatim>\<open>v[0]\<close>: the first element of an array (\<^verbatim>\<open>undefined\<close> when it is empty), the
  first character of a string, the property \<^verbatim>\<open>"0"\<close> of an object.\<close>

fun get_index0 :: "json \<Rightarrow> js_error + json" where
  "get_index0 JUndefined = Inl (type_error ''0'')"
| "get_index0 JNull = Inl (type_error ''0'')"
| "get_index0 (JArr xs) = Inr (case xs of [] \<Rightarrow> JUndefined | x # _ \<Rightarrow> x)"
| "get_index0 (JStr s) = Inr (case s of [] \<Rightarrow> JUndefined | c # _ \<Rightarrow> JStr [c])"
| "get_index0 (JObj kvs) = Inr (field kvs ''0'')"
| "get_index0 v = Inr JUndefined"

text \<open>\<^verbatim>\<open>s.split(' ')\<close>, for any separator character: the pieces between the
  separators, never an empty array.\<close>

fun split_on :: "char \<Rightarrow> string \<Rightarrow> string list" where
  "split_on c [] = [Nil]"
| "split_on c (x # xs) =
     (if x = c then Nil # split_on c xs
      else (case split_on c xs of Nil \<Rightarrow> [x # Nil] | p # ps \<Rightarrow> (x # p) # ps))"

text \<open>\<^verbatim>\<open>parts[1]\<close>: the second piece, \<^verbatim>\<open>undefined\<close> when there is none.\<close>

definition index1 :: "string list \<Rightarrow> json" where
  "index1 parts = (case parts of _ # t # _ \<Rightarrow> JStr t | _ \<Rightarrow> JUndefined)"

section \<open>HTTP responses\<close>

text \<open>\<^verbatim>\<open>res.status(n).json(v)\<close>; \<^verbatim>\<open>res.json(v)\<close> alone has status 200.\<close>

datatype response = Response (status: nat) (body: json)

definition error_body :: "string \<Rightarrow> json" where
  "error_body m = JObj [(''error'', JStr m)]"

section \<open>The collaborators: libraries, process environment, request environment\<close>

text \<open>
  The server calls four packages it does not contain: \<^verbatim>\<open>bcryptjs\<close>, \<^verbatim>\<open>jsonwebtoken\<close>,
  \<^verbatim>\<open>pg\<close> and the model-API client. Their functions are parameters of the model,
  with the arguments the server passes:
  \<^item> \<open>bcrypt_hash password rounds salt_entropy\<close> is \<^verbatim>\<open>bcrypt.hash(password, 10)\<close>; the
    salt it draws is an explicit argument, and what it resolves to is a \<open>digest\<close>;
  \<^item> \<open>bcrypt_compare password hash\<close> is \<^verbatim>\<open>bcrypt.compare(password, user.password)\<close>;
  \<^item> \<open>jwt_sign payload secret clock\<close> is \<^verbatim>\<open>jwt.sign(payload, secret)\<close>, the two-argument
    call without options;
  \<^item> \<open>jwt_verify token secret clock\<close> is \<^verbatim>\<open>jwt.verify(token, secret)\<close>, which throws or
    returns the decoded payload object;
  \<^item> \<open>pg_prepare v\<close> is the text the driver sends for a query parameter.
\<close>

text \<open>A bcrypt hash string: the 60 characters \<^verbatim>\<open>$2a$10$\<close>, salt and hash, none of
  them the NUL character.\<close>

typedef digest = "{s :: string. length s = 60 \<and> CHR 0x00 \<notin> set s}"
  morphisms digest_text Digest
proof
  show "replicate 60 CHR ''.'' \<in> {s :: string. length s = 60 \<and> CHR 0x00 \<notin> set s}"
    by simp
qed

setup_lifting type_definition_digest

record libs =
  bcrypt_hash :: "json \<Rightarrow> nat \<Rightarrow> string \<Rightarrow> js_error + digest"
  bcrypt_compare :: "json \<Rightarrow> string \<Rightarrow> js_error + bool"
  jwt_sign :: "obj \<Rightarrow> string \<Rightarrow> nat \<Rightarrow> string"
  jwt_verify :: "json \<Rightarrow> string \<Rightarrow> nat \<Rightarrow> js_error + obj"
  pg_prepare :: "json \<Rightarrow> string"

text \<open>\<^verbatim>\<open>process.env\<close>, as far as the handlers read it.\<close>

record process_env =
  JWT_SECRET :: "string option"

text \<open>\<^verbatim>\<open>process.env.JWT_SECRET || 'dev_secret_key'\<close>: an unset and an empty variable
  both give the default.\<close>

definition jwt_secret :: "process_env \<Rightarrow> string" where
  "jwt_secret penv =
     (case JWT_SECRET penv of
        None \<Rightarrow> ''dev_secret_key''
      | Some s \<Rightarrow> if s = [] then ''dev_secret_key'' else s)"

text \<open>The argument of \<^verbatim>\<open>client.messages.create\<close>.\<close>

record create_params =
  model :: string
  max_tokens :: nat
  system :: string
  messages :: "(string \<times> json) list"

text \<open>What the outside world gives one request: the clock, the entropy of the salt,
  a failure of the connection pool (if any), and the model API's answer to a call.\<close>

record env =
  now :: nat
  entropy :: string
  db_fault :: "js_error option"
  upstream :: "create_params \<Rightarrow> js_error + json"

section \<open>The users table\<close>

text \<open>
  \<^verbatim>\<open>CREATE TABLE users (id SERIAL PRIMARY KEY, name VARCHAR(255) NOT NULL,
  email VARCHAR(255) NOT NULL UNIQUE, password VARCHAR(255) NOT NULL, created_at ...)\<close>.
  The database is the rows in insertion order and the last value of the sequence behind
  the \<^verbatim>\<open>SERIAL\<close> column. A string is the list of its characters.
\<close>

record user_row =
  user_id :: nat
  user_name :: string
  user_email :: string
  user_password :: string
  created_at :: nat

record db =
  rows :: "user_row list"
  seq :: nat

text \<open>The errors of the server, with their SQLSTATE as \<^verbatim>\<open>err.code\<close>.\<close>

definition invalid_byte :: js_error where
  "invalid_byte = JsError (JStr ''22021'') ''invalid byte sequence for encoding \"UTF8\": 0x00''"

definition too_long :: js_error where
  "too_long = JsError (JStr ''22001'') ''value too long for type character varying(255)''"

definition sequence_limit :: js_error where
  "sequence_limit =
     JsError (JStr ''2200H'') ''nextval: reached maximum value of sequence \"users_id_seq\" (2147483647)''"

definition unique_violation :: "string \<Rightarrow> js_error" where
  "unique_violation c =
     JsError (JStr ''23505'') (''duplicate key value violates unique constraint \"'' @ c @ ''\"'')"

text \<open>A text parameter with a NUL character in it is refused when it is bound.\<close>

definition has_nul :: "string \<Rightarrow> bool" where
  "has_nul s \<longleftrightarrow> CHR 0x00 \<in> set s"

text \<open>Storing into a \<^verbatim>\<open>VARCHAR(255)\<close> column: a value of at most 255 characters is
  stored as it is; a longer one whose excess is all spaces is stored cut to 255
  characters; any other longer one is an error.\<close>

definition varchar255 :: "string \<Rightarrow> string option" where
  "varchar255 s =
     (if length s \<le> 255 then Some s
      else if drop 255 s = replicate (length s - 255) CHR '' '' then Some (take 255 s)
      else None)"

text \<open>\<^verbatim>\<open>INSERT INTO users (name, email, password) VALUES ($1, $2, $3) RETURNING id, name, email\<close>.
  The parameters are bound, then fitted to their columns, and only then is the next id
  drawn: \<^verbatim>\<open>SERIAL\<close> is a 32-bit column, and its sequence raises once 2147483647 has been
  drawn. An id that was drawn is used up, whether or not the row is stored. A duplicate
  key is SQLSTATE 23505. The row returned has the values as stored.\<close>

definition insert_user :: "env \<Rightarrow> db \<Rightarrow> string \<Rightarrow> string \<Rightarrow> string \<Rightarrow> db \<times> (js_error + user_row list)" where
  "insert_user e d n em h =
     (case db_fault e of
        Some err \<Rightarrow> (d, Inl err)
      | None \<Rightarrow>
          if has_nul n \<or> has_nul em \<or> has_nul h then (d, Inl invalid_byte)
          else
            (case (varchar255 n, varchar255 em, varchar255 h) of
               (Some n', Some em', Some h') \<Rightarrow>
                 if 2147483647 \<le> int (seq d) then (d, Inl sequence_limit)
                 else
                   (let i = Suc (seq d); d1 = d\<lparr>seq := i\<rparr> in
                    if i \<in> set (map user_id (rows d)) then (d1, Inl (unique_violation ''users_pkey''))
                    else if em' \<in> set (map user_email (rows d))
                    then (d1, Inl (unique_violation ''users_email_key''))
                    else
                      (let r = \<lparr>user_id = i, user_name = n', user_email = em', user_password = h',
                                created_at = now e\<rparr>
                       in (d1\<lparr>rows := rows d @ [r]\<rparr>, Inr [r])))
             | _ \<Rightarrow> (d, Inl too_long)))"

text \<open>\<^verbatim>\<open>SELECT * FROM users WHERE email = $1\<close>: the parameter is compared as text, trailing
  spaces included.\<close>

definition select_by_email :: "env \<Rightarrow> db \<Rightarrow> string \<Rightarrow> js_error + user_row list" where
  "select_by_email e d em =
     (case db_fault e of
        Some err \<Rightarrow> Inl err
      | None \<Rightarrow>
          if has_nul em then Inl invalid_byte
          else Inr (filter (\<lambda>r. user_email r = em) (rows d)))"

section \<open>Token issue and the auth middleware\<close>

text \<open>The payload both \<^verbatim>\<open>jwt.sign\<close> calls pass: \<^verbatim>\<open>{ userId: user.id, email: user.email }\<close>.\<close>

definition token_payload :: "user_row \<Rightarrow> obj" where
  "token_payload u = [(''userId'', JNum (int (user_id u))), (''email'', JStr (user_email u))]"

definition issue_token :: "libs \<Rightarrow> process_env \<Rightarrow> env \<Rightarrow> user_row \<Rightarrow> string" where
  "issue_token L penv e u = jwt_sign L (token_payload u) (jwt_secret penv) (now e)"

text \<open>\<^verbatim>\<open>{ token, user: { id: user.id, name: user.name, email: user.email } }\<close>.\<close>

definition session_body :: "string \<Rightarrow> user_row \<Rightarrow> json" where
  "session_body tok u =
     JObj [(''token'', JStr tok),
           (''user'', JObj [(''id'', JNum (int (user_id u))),
                            (''name'', JStr (user_name u)),
                            (''email'', JStr (user_email u))])]"

text \<open>\<^verbatim>\<open>verifyToken\<close>: \<open>Inl\<close> is the response it sends itself, \<open>Inr\<close> is \<^verbatim>\<open>req.user\<close>
  when it calls \<^verbatim>\<open>next()\<close>. The header is absent (\<open>None\<close>) or a string.\<close>

definition verifyToken :: "libs \<Rightarrow> process_env \<Rightarrow> env \<Rightarrow> string option \<Rightarrow> response + obj" where
  "verifyToken L penv e auth =
     (case auth of
        None \<Rightarrow> Inl (Response 401 (error_body ''No token''))
      | Some a \<Rightarrow>
          if a = [] then Inl (Response 401 (error_body ''No token''))
          else
            (let token = index1 (split_on CHR '' '' a) in
             case jwt_verify L token (jwt_secret penv) (now e) of
               Inl err \<Rightarrow> Inl (Response 401 (error_body ''Invalid token''))
             | Inr user \<Rightarrow> Inr user))"

section \<open>The auth endpoints\<close>

text \<open>The \<^verbatim>\<open>catch\<close> of the signup handler.\<close>

definition signup_catch :: "js_error \<Rightarrow> response" where
  "signup_catch err =
     (if err_code err = JStr ''23505'' then Response 400 (error_body ''Email already exists'')
      else Response 500 (error_body (err_message err)))"

text \<open>\<^verbatim>\<open>POST /api/auth/signup\<close>: the new database and the response.\<close>

definition signup :: "libs \<Rightarrow> process_env \<Rightarrow> env \<Rightarrow> db \<Rightarrow> obj \<Rightarrow> db \<times> response" where
  "signup L penv e d req_body =
     (let name = field req_body ''name'';
          email = field req_body ''email'';
          password = field req_body ''password''
      in
      if \<not> truthy name \<or> \<not> truthy email \<or> \<not> truthy password
      then (d, Response 400 (error_body ''Missing required fields''))
      else
        (case bcrypt_hash L password 10 (entropy e) of
           Inl err \<Rightarrow> (d, signup_catch err)
         | Inr hash \<Rightarrow>
             (case insert_user e d (pg_prepare L name) (pg_prepare L email) (digest_text hash) of
                (d', Inl err) \<Rightarrow> (d', signup_catch err)
              | (d', Inr result_rows) \<Rightarrow>
                  (case result_rows of
                     [] \<Rightarrow> (d', signup_catch (type_error ''id''))
                   | user # _ \<Rightarrow>
                       (d', Response 201 (session_body (issue_token L penv e user) user))))))"

text \<open>\<^verbatim>\<open>POST /api/auth/login\<close>; the table is only read.\<close>

definition login :: "libs \<Rightarrow> process_env \<Rightarrow> env \<Rightarrow> db \<Rightarrow> obj \<Rightarrow> response" where
  "login L penv e d req_body =
     (let email = field req_body ''email'';
          password = field req_body ''password''
      in
      if \<not> truthy email \<or> \<not> truthy password
      then Response 400 (error_body ''Missing email or password'')
      else
        (case select_by_email e d (pg_prepare L email) of
           Inl err \<Rightarrow> Response 500 (error_body (err_message err))
         | Inr result_rows \<Rightarrow>
             (case result_rows of
                [] \<Rightarrow> Response 401 (error_body ''Invalid credentials'')
              | user # _ \<Rightarrow>
                  (case bcrypt_compare L password (user_password user) of
                     Inl err \<Rightarrow> Response 500 (error_body (err_message err))
                   | Inr match \<Rightarrow>
                       if \<not> match then Response 401 (error_body ''Invalid credentials'')
                       else Response 200 (session_body (issue_token L penv e user) user)))))"

section \<open>The chat endpoint\<close>

definition system_prompt :: string where
  "system_prompt = ''You are Ellerslie School AI, a helpful tutor designed for school students. Help with homework, explain concepts clearly, suggest study tips, and encourage learning. Keep responses focused and under 500 words.''"

definition chat_params :: "json \<Rightarrow> create_params" where
  "chat_params message =
     \<lparr>model = ''claude-3-5-sonnet-20241022'', max_tokens = 1024, system = system_prompt,
      messages = [(''user'', message)]\<rparr>"

text \<open>\<^verbatim>\<open>response.content[0].type === 'text' ? response.content[0].text : '...'\<close>; each
  property read can throw.\<close>

definition extract_reply :: "json \<Rightarrow> js_error + json" where
  "extract_reply response =
     (case get_prop response ''content'' of
        Inl err \<Rightarrow> Inl err
      | Inr content \<Rightarrow>
          (case get_index0 content of
             Inl err \<Rightarrow> Inl err
           | Inr block \<Rightarrow>
               (case get_prop block ''type'' of
                  Inl err \<Rightarrow> Inl err
                | Inr ty \<Rightarrow>
                    if ty = JStr ''text'' then get_prop block ''text''
                    else Inr (JStr ''Could not understand response''))))"

text \<open>The handler behind \<^verbatim>\<open>verifyToken\<close>: the response and the calls made to the
  model API, in order. \<^verbatim>\<open>req.user.userId\<close> is read and not used.\<close>

definition chat_handler :: "env \<Rightarrow> obj \<Rightarrow> obj \<Rightarrow> response \<times> create_params list" where
  "chat_handler e user req_body =
     (let message = field req_body ''message'';
          userId = field user ''userId''
      in
      if \<not> truthy message then (Response 400 (error_body ''No message provided''), [])
      else
        (let params = chat_params message in
         case upstream e params of
           Inl err \<Rightarrow> (Response 500 (error_body (err_message err)), [params])
         | Inr response \<Rightarrow>
             (case extract_reply response of
                Inl err \<Rightarrow> (Response 500 (error_body (err_message err)), [params])
              | Inr reply \<Rightarrow> (Response 200 (JObj [(''reply'', reply)]), [params]))))"

text \<open>\<^verbatim>\<open>app.post('/api/chat', verifyToken, ...)\<close>.\<close>

definition chat :: "libs \<Rightarrow> process_env \<Rightarrow> env \<Rightarrow> string option \<Rightarrow> obj \<Rightarrow> response \<times> create_params list" where
  "chat L penv e auth req_body =
     (case verifyToken L penv e auth of
        Inl res \<Rightarrow> (res, [])
      | Inr user \<Rightarrow> chat_handler e user req_body)"

section \<open>What the handlers rely on in the libraries\<close>

text \<open>A password verifies against every hash made from it, whatever the salt.\<close>

definition bcrypt_contract :: "libs \<Rightarrow> bool" where
  "bcrypt_contract L \<longleftrightarrow>
     (\<forall>p r s h. bcrypt_hash L p r s = Inr h \<longrightarrow> bcrypt_compare L p (digest_text h) = Inr True)"

text \<open>A hash is never the password it was made from.\<close>

definition bcrypt_one_way :: "libs \<Rightarrow> bool" where
  "bcrypt_one_way L \<longleftrightarrow>
     (\<forall>p r s h. bcrypt_hash L p r s = Inr h \<longrightarrow> JStr (digest_text h) \<noteq> p)"

text \<open>A token signed with a non-empty secret from a payload \<^verbatim>\<open>{userId, email}\<close>, with no
  option and so no \<^verbatim>\<open>exp\<close> or \<^verbatim>\<open>nbf\<close> claim, verifies under the same secret whatever the
  clock says, and decodes to the payload followed by the \<^verbatim>\<open>iat\<close> claim that signing
  added. A token has no space in it (it is base64url text and dots).\<close>

definition jwt_contract :: "libs \<Rightarrow> bool" where
  "jwt_contract L \<longleftrightarrow>
     (\<forall>u s t t'. s \<noteq> [] \<longrightarrow>
        jwt_verify L (JStr (jwt_sign L (token_payload u) s t)) s t'
          = Inr (token_payload u @ [(''iat'', JNum (int t))])
        \<and> CHR '' '' \<notin> set (jwt_sign L (token_payload u) s t))"

text \<open>Verification throws when the token it is given is \<^verbatim>\<open>undefined\<close>
  (\<^verbatim>\<open>jwt must be provided\<close>).\<close>

definition jwt_requires_token :: "libs \<Rightarrow> bool" where
  "jwt_requires_token L \<longleftrightarrow> (\<forall>s t. \<exists>err. jwt_verify L JUndefined s t = Inl err)"

text \<open>The header is the word \<^verbatim>\<open>Bearer\<close>, one space, and a non-empty token without
  spaces.\<close>

definition bearer_form :: "string \<Rightarrow> bool" where
  "bearer_form a \<longleftrightarrow>
     take 7 a = ''Bearer '' \<and> drop 7 a \<noteq> [] \<and> CHR '' '' \<notin> set (drop 7 a)"

section \<open>A reference instance of the libraries\<close>

text \<open>
  A small executable instance of \<open>libs\<close>, on which the contracts above hold and the
  handlers can be run. Its tokens are four dot-separated fields: the secret, the email,
  the user id and the issue time, the first two escaped so that they hold neither a dot
  nor a space, the last two in unary.
\<close>

fun esc :: "string \<Rightarrow> string" where
  "esc [] = []"
| "esc (c # cs) =
     (if c = CHR '' '' then ''%s''
      else if c = CHR ''.'' then ''%d''
      else if c = CHR ''%'' then ''%%''
      else [c]) @ esc cs"

fun unesc :: "string \<Rightarrow> string" where
  "unesc (c # d # cs) =
     (if c = CHR ''%''
      then (if d = CHR ''s'' then CHR '' '' else if d = CHR ''d'' then CHR ''.'' else CHR ''%'') # unesc cs
      else c # unesc (d # cs))"
| "unesc cs = cs"

definition ref_sign :: "obj \<Rightarrow> string \<Rightarrow> nat \<Rightarrow> string" where
  "ref_sign payload s t =
     (case (field payload ''userId'', field payload ''email'') of
        (JNum n, JStr em) \<Rightarrow>
          esc s @ ''.'' @ esc em @ ''.'' @ replicate (nat n) CHR ''u'' @ ''.'' @ replicate t CHR ''t''
      | _ \<Rightarrow> [])"

definition ref_verify :: "json \<Rightarrow> string \<Rightarrow> nat \<Rightarrow> js_error + obj" where
  "ref_verify token s t' =
     (case token of
        JStr tk \<Rightarrow>
          if tk = [] then Inl (JsError JUndefined ''jwt must be provided'')
          else
            (case split_on CHR ''.'' tk of
               [a, b, c, d] \<Rightarrow>
                 if a = esc s \<and> c = replicate (length c) CHR ''u'' \<and> d = replicate (length d) CHR ''t''
                 then Inr [(''userId'', JNum (int (length c))), (''email'', JStr (unesc b)),
                           (''iat'', JNum (int (length d)))]
                 else Inl (JsError JUndefined ''invalid signature'')
             | _ \<Rightarrow> Inl (JsError JUndefined ''jwt malformed''))
      | _ \<Rightarrow> Inl (JsError JUndefined ''jwt must be provided''))"

text \<open>\<^verbatim>\<open>typeof v\<close>, which bcryptjs quotes when it refuses its arguments.\<close>

fun typeof :: "json \<Rightarrow> string" where
  "typeof JUndefined = ''undefined''"
| "typeof JNull = ''object''"
| "typeof (JBool b) = ''boolean''"
| "typeof (JNum n) = ''number''"
| "typeof (JStr s) = ''string''"
| "typeof (JArr xs) = ''object''"
| "typeof (JObj kvs) = ''object''"

text \<open>The reference digest of a password: the prefix, the password without its NUL
  characters, dots up to 59 characters, and a last character that is not the last
  character of the password. It does not use the salt.\<close>

lift_definition ref_digest :: "string \<Rightarrow> digest" is
  "\<lambda>s. take 59 (''$2a$10$'' @ filter (\<lambda>c. c \<noteq> CHR 0x00) s @ replicate 59 CHR ''.'')
        @ [if s \<noteq> [] \<and> last s = CHR ''.'' then CHR ''/'' else CHR ''.'']"
  by (auto dest: in_set_takeD)

definition ref_hash :: "json \<Rightarrow> nat \<Rightarrow> string \<Rightarrow> js_error + digest" where
  "ref_hash p r salt =
     (case p of
        JStr s \<Rightarrow> Inr (ref_digest s)
      | _ \<Rightarrow> Inl (JsError JUndefined (''Illegal arguments: '' @ typeof p @ '', number'')))"

definition ref_compare :: "json \<Rightarrow> string \<Rightarrow> js_error + bool" where
  "ref_compare p h =
     (case p of
        JStr s \<Rightarrow> Inr (h = digest_text (ref_digest s))
      | _ \<Rightarrow> Inl (JsError JUndefined (''Illegal arguments: '' @ typeof p @ '', string'')))"

definition ref_prepare :: "json \<Rightarrow> string" where
  "ref_prepare v = (case v of JStr s \<Rightarrow> s | _ \<Rightarrow> ''[object Object]'')"

definition ref_libs :: libs where
  "ref_libs =
     \<lparr>bcrypt_hash = ref_hash, bcrypt_compare = ref_compare, jwt_sign = ref_sign,
      jwt_verify = ref_verify, pg_prepare = ref_prepare\<rparr>"

text \<open>The requests of the scenarios: Ada signs up, with no \<^verbatim>\<open>JWT_SECRET\<close> set, on an
  empty table, while the database is reachable and the model API answers with one text
  block.\<close>

definition ada_body :: obj where
  "ada_body = [(''name'', JStr ''Ada''), (''email'', JStr ''ada@x.com''), (''password'', JStr ''secret123'')]"

definition dev_env :: process_env where
  "dev_env = \<lparr>JWT_SECRET = None\<rparr>"

definition text_reply :: "string \<Rightarrow> json" where
  "text_reply s = JObj [(''content'', JArr [JObj [(''type'', JStr ''text''), (''text'', JStr s)]])]"

definition env_at :: "nat \<Rightarrow> json \<Rightarrow> env" where
  "env_at t answer = \<lparr>now = t, entropy = ''salt'', db_fault = None, upstream = (\<lambda>p. Inr answer)\<rparr>"

definition empty_db :: db where
  "empty_db = \<lparr>rows = [], seq = 0\<rparr>"

definition ada_row :: user_row where
  "ada_row = \<lparr>user_id = 1, user_name = ''Ada'', user_email = ''ada@x.com'',
              user_password = ''$2a$10$secret123............................................'', created_at = 5\<rparr>"

definition ada_db :: db where
  "ada_db = \<lparr>rows = [ada_row], seq = 1\<rparr>"

definition ada_token :: string where
  "ada_token = ''dev_secret_key.ada@x%dcom.u.ttttt''"

text \<open>A login for Ada with a number as the password.\<close>

definition number_body :: obj where
  "number_body = [(''email'', JStr ''ada@x.com''), (''password'', JNum 12345)]"

text \<open>A signup whose email has 256 characters, the last one a space.\<close>

definition long_email :: string where
  "long_email = replicate 255 CHR ''x'' @ '' ''"

definition long_body :: obj where
  "long_body = [(''name'', JStr ''Eve''), (''email'', JStr long_email), (''password'', JStr ''secret123'')]"

text \<open>A table without rows whose sequence has one id left.\<close>

definition last_id_db :: db where
  "last_id_db = \<lparr>rows = [], seq = 2147483646\<rparr>"

text \<open>The chat request of the scenario, and an answer whose only block is a tool call.\<close>

definition question_body :: obj where
  "question_body = [(''message'', JStr ''What is 2+2?'')]"

definition tool_reply :: json where
  "tool_reply = JObj [(''content'', JArr [JObj [(''type'', JStr ''tool_use''), (''name'', JStr ''calc'')]])]"

section \<open>Splitting strings, and the reference instance\<close>

lemma split_on_nonempty: "split_on c xs \<noteq> []"
  by (induction xs) (auto split: list.splits)

lemma split_on_no_sep: "c \<notin> set xs \<Longrightarrow> split_on c xs = [xs]"
  by (induction xs) auto

lemma split_on_append: "c \<notin> set xs \<Longrightarrow> split_on c (xs @ c # ys) = xs # split_on c ys"
  by (induction xs) auto

lemma esc_no_sep: "CHR '' '' \<notin> set (esc s) \<and> CHR ''.'' \<notin> set (esc s)"
  by (induction s) auto

lemma esc_Nil_iff: "esc s = [] \<longleftrightarrow> s = []"
  by (cases s) auto

lemma unesc_esc: "unesc (esc s) = s"
proof (induction s)
  case Nil
  show ?case by simp
next
  case (Cons c cs)
  show ?case
  proof (cases "esc cs")
    case Nil
    then have "cs = []" by (simp add: esc_Nil_iff)
    then show ?thesis by simp
  next
    case (Cons d ds)
    with Cons.IH show ?thesis by auto
  qed
qed

lemma jwt_secret_nonempty: "jwt_secret penv \<noteq> []"
  by (simp add: jwt_secret_def split: option.splits)

lemma ref_sign_payload:
  "ref_sign (token_payload u) s t =
     esc s @ ''.'' @ esc (user_email u) @ ''.'' @ replicate (user_id u) CHR ''u'' @ ''.'' @ replicate t CHR ''t''"
  by (simp add: ref_sign_def token_payload_def field_def)

lemma ref_sign_split:
  "split_on CHR ''.'' (ref_sign (token_payload u) s t) =
     [esc s, esc (user_email u), replicate (user_id u) CHR ''u'', replicate t CHR ''t'']"
  by (simp add: ref_sign_payload split_on_append split_on_no_sep esc_no_sep)

lemma ref_sign_no_space: "CHR '' '' \<notin> set (ref_sign (token_payload u) s t)"
  by (simp add: ref_sign_payload esc_no_sep)

lemma ref_sign_nonempty: "ref_sign (token_payload u) s t \<noteq> []"
  by (simp add: ref_sign_payload)

lemma ref_verify_sign:
  "ref_verify (JStr (ref_sign (token_payload u) s t)) s t' = Inr (token_payload u @ [(''iat'', JNum (int t))])"
proof -
  have "ref_verify (JStr (ref_sign (token_payload u) s t)) s t'
      = Inr [(''userId'', JNum (int (user_id u))), (''email'', JStr (user_email u)), (''iat'', JNum (int t))]"
    by (simp add: ref_verify_def ref_sign_split ref_sign_nonempty unesc_esc)
  then show ?thesis by (simp add: token_payload_def)
qed

lemma ref_jwt_contract: "jwt_contract ref_libs"
  by (simp add: jwt_contract_def ref_libs_def ref_verify_sign ref_sign_no_space)

lemma ref_jwt_requires_token: "jwt_requires_token ref_libs"
  by (simp add: jwt_requires_token_def ref_libs_def ref_verify_def)

lemma ref_bcrypt_contract: "bcrypt_contract ref_libs"
  by (auto simp: bcrypt_contract_def ref_libs_def ref_hash_def ref_compare_def split: json.splits)

lemma ref_digest_not_password: "digest_text (ref_digest s) \<noteq> s"
proof
  assume eq: "digest_text (ref_digest s) = s"
  define m where "m = (if s \<noteq> [] \<and> last s = CHR ''.'' then CHR ''/'' else CHR ''.'')"
  define xs where "xs = take 59 (''$2a$10$'' @ filter (\<lambda>c. c \<noteq> CHR 0x00) s @ replicate 59 CHR ''.'')"
  have "digest_text (ref_digest s) = xs @ [m]"
    unfolding m_def xs_def by (rule ref_digest.rep_eq)
  with eq have s: "s = xs @ [m]" by simp
  then have "s \<noteq> []" and "last s = m" by simp_all
  then show False
    unfolding m_def by (cases "last s = CHR ''.''") simp_all
qed

lemma ref_bcrypt_one_way: "bcrypt_one_way ref_libs"
  by (auto simp: bcrypt_one_way_def ref_libs_def ref_hash_def ref_digest_not_password split: json.splits)

section \<open>What the table stores\<close>

lemma digest_length: "length (digest_text h) = 60"
  using digest_text [of h] by simp

lemma digest_no_nul: "\<not> has_nul (digest_text h)"
  using digest_text [of h] by (simp add: has_nul_def)

lemma varchar255_digest: "varchar255 (digest_text h) = Some (digest_text h)"
  by (simp add: varchar255_def digest_length)

lemma varchar255_short: "length s \<le> 255 \<Longrightarrow> varchar255 s = Some s"
  by (simp add: varchar255_def)

lemma varchar255_length: "varchar255 s = Some t \<Longrightarrow> length t \<le> 255"
  by (auto simp: varchar255_def split: if_splits)

section \<open>The middleware and the handlers, case by case\<close>

text \<open>An insert that returns rows went through every check, and stored and returned one
  new row. So did a signup answered with 201.\<close>

lemma insert_user_stored:
  assumes "insert_user e d n em h = (d', Inr rs)"
  shows "\<exists>n' em' h'.
      db_fault e = None \<and> \<not> has_nul n \<and> \<not> has_nul em \<and> \<not> has_nul h
    \<and> varchar255 n = Some n' \<and> varchar255 em = Some em' \<and> varchar255 h = Some h'
    \<and> int (seq d) < 2147483647
    \<and> em' \<notin> set (map user_email (rows d))
    \<and> d' = d\<lparr>seq := Suc (seq d), rows := rows d @ [\<lparr>user_id = Suc (seq d), user_name = n',
          user_email = em', user_password = h', created_at = now e\<rparr>]\<rparr>
    \<and> rs = [\<lparr>user_id = Suc (seq d), user_name = n', user_email = em', user_password = h',
          created_at = now e\<rparr>]"
proof -
  from assms have f: "db_fault e = None"
    by (auto simp: insert_user_def split: option.splits)
  with assms have nul: "\<not> has_nul n" "\<not> has_nul em" "\<not> has_nul h"
    by (auto simp: insert_user_def split: if_splits)
  with f assms obtain n' em' h' where v: "varchar255 n = Some n'" "varchar255 em = Some em'"
      "varchar255 h = Some h'"
    by (cases "varchar255 n"; cases "varchar255 em"; cases "varchar255 h")
       (auto simp: insert_user_def)
  with f nul assms have q: "int (seq d) < 2147483647"
    by (auto simp: insert_user_def split: if_splits)
  with f nul v assms have k: "em' \<notin> set (map user_email (rows d))"
    by (auto simp: insert_user_def Let_def split: if_splits)
  from f nul v q k assms have "d' = d\<lparr>seq := Suc (seq d), rows := rows d @ [\<lparr>user_id = Suc (seq d), user_name = n', user_email = em',
               user_password = h', created_at = now e\<rparr>]\<rparr>"
    and "rs = [\<lparr>user_id = Suc (seq d), user_name = n', user_email = em',
               user_password = h', created_at = now e\<rparr>]"
    by (auto simp: insert_user_def Let_def split: if_splits)
  with f nul v q k show ?thesis by simp
qed

lemma signup_missing:
  "\<not> (truthy (field b ''name'') \<and> truthy (field b ''email'') \<and> truthy (field b ''password'')) \<Longrightarrow>
     signup L penv e d b = (d, Response 400 (error_body ''Missing required fields''))"
  by (auto simp: signup_def)

lemma signup_checked:
  "truthy (field b ''name'') \<Longrightarrow> truthy (field b ''email'') \<Longrightarrow> truthy (field b ''password'') \<Longrightarrow>
     signup L penv e d b =
       (case bcrypt_hash L (field b ''password'') 10 (entropy e) of
          Inl err \<Rightarrow> (d, signup_catch err)
        | Inr hash \<Rightarrow>
            (case insert_user e d (pg_prepare L (field b ''name'')) (pg_prepare L (field b ''email''))
                    (digest_text hash) of
               (d', Inl err) \<Rightarrow> (d', signup_catch err)
             | (d', Inr result_rows) \<Rightarrow>
                 (case result_rows of
                    [] \<Rightarrow> (d', signup_catch (type_error ''id''))
                  | user # _ \<Rightarrow>
                      (d', Response 201 (session_body (issue_token L penv e user) user)))))"
  by (simp add: signup_def)

lemma signup_catch_status: "status (signup_catch err) \<noteq> 201"
  by (simp add: signup_catch_def)

lemma signup_created:
  assumes "signup L penv e d b = (d', res)" and "status res = 201"
  shows "\<exists>h n' em' u.
      truthy (field b ''name'') \<and> truthy (field b ''email'') \<and> truthy (field b ''password'')
    \<and> bcrypt_hash L (field b ''password'') 10 (entropy e) = Inr h
    \<and> db_fault e = None
    \<and> \<not> has_nul (pg_prepare L (field b ''email''))
    \<and> varchar255 (pg_prepare L (field b ''name'')) = Some n'
    \<and> varchar255 (pg_prepare L (field b ''email'')) = Some em'
    \<and> em' \<notin> set (map user_email (rows d))
    \<and> u = \<lparr>user_id = Suc (seq d), user_name = n', user_email = em',
             user_password = digest_text h, created_at = now e\<rparr>
    \<and> d' = d\<lparr>seq := Suc (seq d), rows := rows d @ [u]\<rparr>
    \<and> res = Response 201 (session_body (issue_token L penv e u) u)"
proof -
  have t: "truthy (field b ''name'') \<and> truthy (field b ''email'') \<and> truthy (field b ''password'')"
  proof (rule ccontr)
    assume "\<not> ?thesis"
    from signup_missing [OF this, of L penv e d] assms show False by simp
  qed
  note c = signup_checked [of b L penv e d]
  from t c assms obtain h where h: "bcrypt_hash L (field b ''password'') 10 (entropy e) = Inr h"
    by (cases "bcrypt_hash L (field b ''password'') 10 (entropy e)")
       (auto simp: signup_catch_status)
  obtain d1 r where i: "insert_user e d (pg_prepare L (field b ''name'')) (pg_prepare L (field b ''email''))
      (digest_text h) = (d1, r)"
    by (cases "insert_user e d (pg_prepare L (field b ''name'')) (pg_prepare L (field b ''email''))
      (digest_text h)") blast
  with t h c assms obtain rs where r: "r = Inr rs"
    by (cases r) (auto simp: signup_catch_status)
  from i r have "insert_user e d (pg_prepare L (field b ''name'')) (pg_prepare L (field b ''email''))
      (digest_text h) = (d1, Inr rs)"
    by simp
  from insert_user_stored [OF this] obtain n' em' h' where
    s: "db_fault e = None \<and> \<not> has_nul (pg_prepare L (field b ''email''))
      \<and> varchar255 (pg_prepare L (field b ''name'')) = Some n'
      \<and> varchar255 (pg_prepare L (field b ''email'')) = Some em'
      \<and> varchar255 (digest_text h) = Some h'
      \<and> em' \<notin> set (map user_email (rows d))
      \<and> d1 = d\<lparr>seq := Suc (seq d), rows := rows d @ [\<lparr>user_id = Suc (seq d), user_name = n',
          user_email = em', user_password = h', created_at = now e\<rparr>]\<rparr>
      \<and> rs = [\<lparr>user_id = Suc (seq d), user_name = n', user_email = em', user_password = h',
          created_at = now e\<rparr>]"
    by (elim exE conjE) (rule that, simp)
  then have h': "h' = digest_text h" by (simp add: varchar255_digest)
  define u where "u = \<lparr>user_id = Suc (seq d), user_name = n', user_email = em',
             user_password = digest_text h, created_at = now e\<rparr>"
  from s h' have rs: "rs = [u]" and d1: "d1 = d\<lparr>seq := Suc (seq d), rows := rows d @ [u]\<rparr>"
    by (simp_all add: u_def)
  from t h i r rs c assms have "d' = d1" and "res = Response 201 (session_body (issue_token L penv e u) u)"
    by auto
  with t h s d1 u_def show ?thesis by simp
qed

lemma index1_second:
  assumes "CHR '' '' \<notin> set w" and "CHR '' '' \<notin> set tok"
    and "rest = [] \<or> take 1 rest = '' ''"
  shows "index1 (split_on CHR '' '' (w @ '' '' @ tok @ rest)) = JStr tok"
proof (cases rest)
  case Nil
  with assms show ?thesis
    by (simp add: split_on_append split_on_no_sep index1_def)
next
  case (Cons c r)
  with assms have "rest = CHR '' '' # r" by simp
  with assms show ?thesis
    by (simp add: split_on_append index1_def)
qed

lemma verifyToken_second_piece:
  assumes "CHR '' '' \<notin> set w" and "CHR '' '' \<notin> set tok"
    and "rest = [] \<or> take 1 rest = '' ''"
  shows "verifyToken L penv e (Some (w @ '' '' @ tok @ rest)) =
     (case jwt_verify L (JStr tok) (jwt_secret penv) (now e) of
        Inl err \<Rightarrow> Inl (Response 401 (error_body ''Invalid token''))
      | Inr user \<Rightarrow> Inr user)"
  using index1_second [OF assms] by (simp add: verifyToken_def)

lemma verifyToken_issued:
  assumes "jwt_contract L"
  shows "verifyToken L penv e' (Some (''Bearer '' @ issue_token L penv e u)) =
     Inr (token_payload u @ [(''iat'', JNum (int (now e)))])"
proof -
  have ns: "CHR '' '' \<notin> set (issue_token L penv e u)"
    and v: "jwt_verify L (JStr (issue_token L penv e u)) (jwt_secret penv) (now e')
        = Inr (token_payload u @ [(''iat'', JNum (int (now e)))])"
    using assms jwt_secret_nonempty [of penv] by (simp_all add: jwt_contract_def issue_token_def)
  have "verifyToken L penv e' (Some (''Bearer'' @ '' '' @ issue_token L penv e u @ [])) =
     Inr (token_payload u @ [(''iat'', JNum (int (now e)))])"
    by (subst verifyToken_second_piece) (simp_all add: ns v)
  then show ?thesis by simp
qed

lemma login_ok:
  assumes "login L penv e d b = res" and "status res = 200"
  shows "\<exists>u. u \<in> set (rows d) \<and> res = Response 200 (session_body (issue_token L penv e u) u)"
proof -
  from assms obtain u us where f: "filter (\<lambda>r. user_email r = pg_prepare L (field b ''email'')) (rows d) = u # us"
    and r: "res = Response 200 (session_body (issue_token L penv e u) u)"
    by (auto simp: login_def select_by_email_def Let_def
      split: if_splits sum.splits option.splits list.splits)
  from f have "u \<in> set (filter (\<lambda>r. user_email r = pg_prepare L (field b ''email'')) (rows d))" by simp
  then have "u \<in> set (rows d)" by simp
  with r show ?thesis by blast
qed

lemma filter_none: "k \<notin> set (map f xs) \<Longrightarrow> filter (\<lambda>r. f r = k) xs = []"
  by (induction xs) auto

lemma find_filter: "find P xs = Some u \<Longrightarrow> \<exists>us. filter P xs = u # us"
  by (induction xs) (auto split: if_splits)

lemma login_found:
  assumes "truthy (field b ''email'')" "truthy (field b ''password'')" "db_fault e = None"
    and "\<not> has_nul (pg_prepare L (field b ''email''))"
    and "pg_prepare L (field b ''email'') \<notin> set (map user_email before)"
    and "rows d = before @ u # after" and "user_email u = pg_prepare L (field b ''email'')"
    and "bcrypt_compare L (field b ''password'') (user_password u) = Inr True"
  shows "login L penv e d b = Response 200 (session_body (issue_token L penv e u) u)"
proof -
  have "filter (\<lambda>r. user_email r = pg_prepare L (field b ''email'')) before = []"
    using assms(5) by (rule filter_none)
  then show ?thesis using assms
    by (simp add: login_def select_by_email_def)
qed

text \<open>The table only grows: a signup appends at most one row, a login reads. A signup
  whose fields are truthy, whose password is hashed, whose values the columns take, whose
  email and next id are not in the table, made while the sequence has an id left, is
  answered with 201.\<close>

lemma insert_user_rows_grow:
  "insert_user e d n em h = (d', r) \<Longrightarrow> \<exists>ys. rows d' = rows d @ ys"
  by (auto simp: insert_user_def Let_def split: option.splits if_splits)

lemma signup_rows_grow:
  assumes "signup L penv e d b = (d', res)"
  shows "\<exists>ys. rows d' = rows d @ ys"
  using assms
  by (auto simp: signup_def Let_def split: if_splits sum.splits prod.splits list.splits
      dest: insert_user_rows_grow)

lemma signup_valid_created:
  assumes "truthy (field b ''name'')" and "truthy (field b ''email'')" and "truthy (field b ''password'')"
    and "bcrypt_hash L (field b ''password'') 10 (entropy e) = Inr h"
    and "\<not> has_nul (pg_prepare L (field b ''name''))" and "\<not> has_nul (pg_prepare L (field b ''email''))"
    and "varchar255 (pg_prepare L (field b ''name'')) = Some n'"
    and "varchar255 (pg_prepare L (field b ''email'')) = Some em'"
    and "db_fault e = None"
    and "int (seq d) < 2147483647"
    and "Suc (seq d) \<notin> set (map user_id (rows d))"
    and "em' \<notin> set (map user_email (rows d))"
  shows "status (snd (signup L penv e d b)) = 201"
  using assms
  by (simp add: signup_checked insert_user_def Let_def varchar255_digest digest_no_nul)

section \<open>The scenarios, run\<close>

lemma ada_signup:
  "signup ref_libs dev_env (env_at 5 JNull) empty_db ada_body
     = (ada_db, Response 201 (session_body ada_token ada_row))"
  by code_simp

lemma ada_auth:
  "verifyToken ref_libs dev_env (env_at 9 answer) (Some (''Bearer '' @ ada_token))
     = Inr [(''userId'', JNum 1), (''email'', JStr ''ada@x.com''), (''iat'', JNum 5)]"
  by (simp add: verifyToken_def ada_token_def index1_def ref_libs_def ref_verify_def
      dev_env_def jwt_secret_def env_at_def)

lemma ada_token_no_space: "CHR '' '' \<notin> set ada_token"
  by (simp add: ada_token_def)

lemma ada_token_verifies:
  "jwt_verify ref_libs (JStr ada_token) (jwt_secret dev_env) (now (env_at 9 JNull))
     = Inr [(''userId'', JNum 1), (''email'', JStr ''ada@x.com''), (''iat'', JNum 5)]"
  by (simp add: ada_token_def ref_libs_def ref_verify_def dev_env_def jwt_secret_def env_at_def)

section \<open>The chat endpoint without a message\<close>

text \<open>
  Claim C4. A request to \<^verbatim>\<open>/api/chat\<close> that passes the auth middleware and whose body
  has no \<^verbatim>\<open>message\<close> field is answered with 400 and \<^verbatim>\<open>{error: "No message provided"}\<close>,
  and no call to the model API is made.
\<close>

theorem chat_without_message:
  assumes "verifyToken L penv e auth = Inr user" and "map_of b ''message'' = None"
  shows "chat L penv e auth b = (Response 400 (JObj [(''error'', JStr ''No message provided'')]), [])"
  using assms by (simp add: chat_def chat_handler_def field_def error_body_def)

theorem chat_without_message_witness:
  "verifyToken ref_libs dev_env (env_at 9 (text_reply ''4'')) (Some (''Bearer '' @ ada_token))
     = Inr [(''userId'', JNum 1), (''email'', JStr ''ada@x.com''), (''iat'', JNum 5)]
   \<and> map_of [(''msg'', JStr ''hello'')] ''message'' = None
   \<and> chat ref_libs dev_env (env_at 9 (text_reply ''4'')) (Some (''Bearer '' @ ada_token)) [(''msg'', JStr ''hello'')]
       = (Response 400 (JObj [(''error'', JStr ''No message provided'')]), [])"
proof -
  have m: "map_of [(''msg'', JStr ''hello'')] ''message'' = None" by simp
  from chat_without_message [OF ada_auth m] ada_auth m show ?thesis by blast
qed

section \<open>The reply of the chat endpoint\<close>

text \<open>
  Claim C7. For a request that passes the auth middleware with a truthy message, and an
  answer of the model API whose \<^verbatim>\<open>content\<close> array has a first block: if the block's
  \<^verbatim>\<open>type\<close> is \<^verbatim>\<open>"text"\<close> the response is 200 with \<^verbatim>\<open>reply\<close> the block's \<^verbatim>\<open>text\<close>;
  if the block is there (neither \<^verbatim>\<open>undefined\<close> nor \<^verbatim>\<open>null\<close>) with another type, the
  response is 200 with the fixed fallback string. One call was made to the model API.
\<close>

theorem chat_reply_from_first_block:
  assumes "verifyToken L penv e auth = Inr user" and "truthy (field b ''message'')"
    and "upstream e (chat_params (field b ''message'')) = Inr (JObj r)"
    and "field r ''content'' = JArr (block # blocks)"
  shows "(get_prop block ''type'' = Inr (JStr ''text'') \<longrightarrow>
            (\<exists>kvs. block = JObj kvs
               \<and> chat L penv e auth b
                  = (Response 200 (JObj [(''reply'', field kvs ''text'')]),
                     [chat_params (field b ''message'')])))
       \<and> (block \<noteq> JUndefined \<and> block \<noteq> JNull \<and> get_prop block ''type'' \<noteq> Inr (JStr ''text'') \<longrightarrow>
            chat L penv e auth b
              = (Response 200 (JObj [(''reply'', JStr ''Could not understand response'')]),
                 [chat_params (field b ''message'')]))"
proof (intro conjI impI)
  assume "get_prop block ''type'' = Inr (JStr ''text'')"
  then obtain kvs where k: "block = JObj kvs" "field kvs ''type'' = JStr ''text''"
    by (cases block) auto
  with assms have "chat L penv e auth b
      = (Response 200 (JObj [(''reply'', field kvs ''text'')]), [chat_params (field b ''message'')])"
    by (simp add: chat_def chat_handler_def extract_reply_def Let_def)
  with k show "\<exists>kvs. block = JObj kvs
               \<and> chat L penv e auth b
                  = (Response 200 (JObj [(''reply'', field kvs ''text'')]),
                     [chat_params (field b ''message'')])"
    by blast
next
  assume a: "block \<noteq> JUndefined \<and> block \<noteq> JNull \<and> get_prop block ''type'' \<noteq> Inr (JStr ''text'')"
  then obtain ty where t: "get_prop block ''type'' = Inr ty" "ty \<noteq> JStr ''text''"
    by (cases block) auto
  with assms show "chat L penv e auth b
              = (Response 200 (JObj [(''reply'', JStr ''Could not understand response'')]),
                 [chat_params (field b ''message'')])"
    by (simp add: chat_def chat_handler_def extract_reply_def Let_def)
qed

theorem chat_reply_from_first_block_witness:
  "verifyToken ref_libs dev_env (env_at 9 (text_reply ''4'')) (Some (''Bearer '' @ ada_token))
     = Inr [(''userId'', JNum 1), (''email'', JStr ''ada@x.com''), (''iat'', JNum 5)]
   \<and> truthy (field question_body ''message'')
   \<and> upstream (env_at 9 (text_reply ''4'')) (chat_params (field question_body ''message''))
       = Inr (JObj [(''content'', JArr [JObj [(''type'', JStr ''text''), (''text'', JStr ''4'')]])])
   \<and> get_prop (JObj [(''type'', JStr ''text''), (''text'', JStr ''4'')]) ''type'' = Inr (JStr ''text'')
   \<and> chat ref_libs dev_env (env_at 9 (text_reply ''4'')) (Some (''Bearer '' @ ada_token)) question_body
       = (Response 200 (JObj [(''reply'', JStr ''4'')]), [chat_params (JStr ''What is 2+2?'')])
   \<and> upstream (env_at 9 tool_reply) (chat_params (field question_body ''message''))
       = Inr (JObj [(''content'', JArr [JObj [(''type'', JStr ''tool_use''), (''name'', JStr ''calc'')]])])
   \<and> get_prop (JObj [(''type'', JStr ''tool_use''), (''name'', JStr ''calc'')]) ''type'' \<noteq> Inr (JStr ''text'')
   \<and> chat ref_libs dev_env (env_at 9 tool_reply) (Some (''Bearer '' @ ada_token)) question_body
       = (Response 200 (JObj [(''reply'', JStr ''Could not understand response'')]),
          [chat_params (JStr ''What is 2+2?'')])"
proof -
  have t: "truthy (field question_body ''message'')"
    and m: "field question_body ''message'' = JStr ''What is 2+2?''"
    by (simp_all add: question_body_def field_def)
  have u1: "upstream (env_at 9 (text_reply ''4'')) (chat_params (field question_body ''message''))
       = Inr (JObj [(''content'', JArr [JObj [(''type'', JStr ''text''), (''text'', JStr ''4'')]])])"
    by (simp add: env_at_def text_reply_def)
  have u2: "upstream (env_at 9 tool_reply) (chat_params (field question_body ''message''))
       = Inr (JObj [(''content'', JArr [JObj [(''type'', JStr ''tool_use''), (''name'', JStr ''calc'')]])])"
    by (simp add: env_at_def tool_reply_def)
  have c: "field [(''content'', JArr [x])] ''content'' = JArr (x # [])" for x
    by (simp add: field_def)
  have g1: "get_prop (JObj [(''type'', JStr ''text''), (''text'', JStr ''4'')]) ''type'' = Inr (JStr ''text'')"
    by (simp add: field_def)
  have g2: "get_prop (JObj [(''type'', JStr ''tool_use''), (''name'', JStr ''calc'')]) ''type'' \<noteq> Inr (JStr ''text'')"
    by (simp add: field_def)
  have "chat ref_libs dev_env (env_at 9 (text_reply ''4'')) (Some (''Bearer '' @ ada_token)) question_body
       = (Response 200 (JObj [(''reply'', JStr ''4'')]), [chat_params (JStr ''What is 2+2?'')])"
    using chat_reply_from_first_block [OF ada_auth t u1 c] g1 m by (auto simp: field_def)
  moreover have "chat ref_libs dev_env (env_at 9 tool_reply) (Some (''Bearer '' @ ada_token)) question_body
       = (Response 200 (JObj [(''reply'', JStr ''Could not understand response'')]),
          [chat_params (JStr ''What is 2+2?'')])"
    using chat_reply_from_first_block [OF ada_auth t u2 c] g2 m by auto
  ultimately show ?thesis using ada_auth t u1 u2 g1 g2 by blast
qed

section \<open>An empty content array\<close>

text \<open>
  Claim C10. When the model API answers with an empty \<^verbatim>\<open>content\<close> array, reading the type
  of the missing first block throws, the handler's \<^verbatim>\<open>catch\<close> answers with 500 and an
  error body, and the fallback string is not returned.
\<close>

theorem chat_empty_content:
  assumes "verifyToken L penv e auth = Inr user" and "truthy (field b ''message'')"
    and "upstream e (chat_params (field b ''message'')) = Inr (JObj r)"
    and "field r ''content'' = JArr []"
  shows "chat L penv e auth b
           = (Response 500 (JObj [(''error'', JStr (err_message (type_error ''type'')))]),
              [chat_params (field b ''message'')])
       \<and> fst (chat L penv e auth b)
           \<noteq> Response 200 (JObj [(''reply'', JStr ''Could not understand response'')])"
  using assms by (simp add: chat_def chat_handler_def extract_reply_def Let_def error_body_def)

theorem chat_empty_content_witness:
  "verifyToken ref_libs dev_env (env_at 9 (JObj [(''content'', JArr [])])) (Some (''Bearer '' @ ada_token))
     = Inr [(''userId'', JNum 1), (''email'', JStr ''ada@x.com''), (''iat'', JNum 5)]
   \<and> truthy (field question_body ''message'')
   \<and> upstream (env_at 9 (JObj [(''content'', JArr [])])) (chat_params (field question_body ''message''))
       = Inr (JObj [(''content'', JArr [])])
   \<and> field [(''content'', JArr [])] ''content'' = JArr []
   \<and> chat ref_libs dev_env (env_at 9 (JObj [(''content'', JArr [])])) (Some (''Bearer '' @ ada_token)) question_body
       = (Response 500 (JObj [(''error'', JStr (err_message (type_error ''type'')))]),
          [chat_params (field question_body ''message'')])
   \<and> fst (chat ref_libs dev_env (env_at 9 (JObj [(''content'', JArr [])])) (Some (''Bearer '' @ ada_token)) question_body)
       \<noteq> Response 200 (JObj [(''reply'', JStr ''Could not understand response'')])"
proof -
  have t: "truthy (field question_body ''message'')"
    by (simp add: question_body_def field_def)
  have u: "upstream (env_at 9 (JObj [(''content'', JArr [])])) (chat_params (field question_body ''message''))
       = Inr (JObj [(''content'', JArr [])])"
    by (simp add: env_at_def)
  have c: "field [(''content'', JArr [])] ''content'' = JArr []"
    by (simp add: field_def)
  from chat_empty_content [OF ada_auth t u c] ada_auth t u c show ?thesis by blast
qed

section \<open>Presence is truthiness\<close>

text \<open>
  Claim C9. A field that is in the body with the empty string as its value fails the
  presence check: a signup with an empty \<^verbatim>\<open>name\<close>, \<^verbatim>\<open>email\<close> or \<^verbatim>\<open>password\<close> is answered
  with 400 \<^verbatim>\<open>Missing required fields\<close> and leaves the database as it was; a login with an
  empty \<^verbatim>\<open>email\<close> or \<^verbatim>\<open>password\<close> with 400 \<^verbatim>\<open>Missing email or password\<close>; the chat
  handler answers an empty \<^verbatim>\<open>message\<close> with 400 \<^verbatim>\<open>No message provided\<close> and makes no
  call to the model API, and that is the answer of the route for every request that the
  auth middleware lets through to the handler.
\<close>

theorem empty_string_is_missing:
  "(map_of b ''name'' = Some (JStr []) \<or> map_of b ''email'' = Some (JStr [])
      \<or> map_of b ''password'' = Some (JStr []) \<longrightarrow>
      signup L penv e d b = (d, Response 400 (JObj [(''error'', JStr ''Missing required fields'')])))
   \<and> (map_of b ''email'' = Some (JStr []) \<or> map_of b ''password'' = Some (JStr []) \<longrightarrow>
      login L penv e d b = Response 400 (JObj [(''error'', JStr ''Missing email or password'')]))
   \<and> (map_of b ''message'' = Some (JStr []) \<longrightarrow>
      chat_handler e user b = (Response 400 (JObj [(''error'', JStr ''No message provided'')]), [])
      \<and> (verifyToken L penv e auth = Inr user \<longrightarrow>
           chat L penv e auth b = (Response 400 (JObj [(''error'', JStr ''No message provided'')]), [])))"
  by (auto simp: signup_def login_def chat_def chat_handler_def field_def error_body_def)

theorem empty_string_is_missing_witness:
  "map_of [(''name'', JStr ''Ada''), (''email'', JStr ''ada@x.com''), (''password'', JStr [])] ''password'' = Some (JStr [])
   \<and> signup ref_libs dev_env (env_at 9 JNull) ada_db [(''name'', JStr ''Ada''), (''email'', JStr ''ada@x.com''), (''password'', JStr [])]
        = (ada_db, Response 400 (JObj [(''error'', JStr ''Missing required fields'')]))
   \<and> login ref_libs dev_env (env_at 9 JNull) ada_db [(''name'', JStr ''Ada''), (''email'', JStr ''ada@x.com''), (''password'', JStr [])]
        = Response 400 (JObj [(''error'', JStr ''Missing email or password'')])
   \<and> verifyToken ref_libs dev_env (env_at 9 JNull) (Some (''Bearer '' @ ada_token))
        = Inr [(''userId'', JNum 1), (''email'', JStr ''ada@x.com''), (''iat'', JNum 5)]
   \<and> map_of [(''message'', JStr [])] ''message'' = Some (JStr [])
   \<and> chat_handler (env_at 9 JNull) [(''userId'', JNum 1), (''email'', JStr ''ada@x.com''), (''iat'', JNum 5)]
          [(''message'', JStr [])]
        = (Response 400 (JObj [(''error'', JStr ''No message provided'')]), [])
   \<and> chat ref_libs dev_env (env_at 9 JNull) (Some (''Bearer '' @ ada_token)) [(''message'', JStr [])]
        = (Response 400 (JObj [(''error'', JStr ''No message provided'')]), [])"
proof -
  have p: "map_of [(''name'', JStr ''Ada''), (''email'', JStr ''ada@x.com''), (''password'', JStr [])] ''password'' = Some (JStr [])"
    by simp
  have m: "map_of [(''message'', JStr [])] ''message'' = Some (JStr [])"
    by simp
  from p have "signup ref_libs dev_env (env_at 9 JNull) ada_db [(''name'', JStr ''Ada''), (''email'', JStr ''ada@x.com''), (''password'', JStr [])]
        = (ada_db, Response 400 (JObj [(''error'', JStr ''Missing required fields'')]))"
    using empty_string_is_missing [of "[(''name'', JStr ''Ada''), (''email'', JStr ''ada@x.com''), (''password'', JStr [])]"
        ref_libs dev_env "env_at 9 JNull" ada_db] by blast
  moreover from p have "login ref_libs dev_env (env_at 9 JNull) ada_db [(''name'', JStr ''Ada''), (''email'', JStr ''ada@x.com''), (''password'', JStr [])]
        = Response 400 (JObj [(''error'', JStr ''Missing email or password'')])"
    using empty_string_is_missing [of "[(''name'', JStr ''Ada''), (''email'', JStr ''ada@x.com''), (''password'', JStr [])]"
        ref_libs dev_env "env_at 9 JNull" ada_db] by blast
  moreover from m ada_auth [of JNull] have "chat_handler (env_at 9 JNull) [(''userId'', JNum 1), (''email'', JStr ''ada@x.com''), (''iat'', JNum 5)]
          [(''message'', JStr [])]
        = (Response 400 (JObj [(''error'', JStr ''No message provided'')]), [])
     \<and> chat ref_libs dev_env (env_at 9 JNull) (Some (''Bearer '' @ ada_token)) [(''message'', JStr [])]
        = (Response 400 (JObj [(''error'', JStr ''No message provided'')]), [])"
    using empty_string_is_missing [of "[(''message'', JStr [])]" ref_libs dev_env "env_at 9 JNull" ada_db
        "[(''userId'', JNum 1), (''email'', JStr ''ada@x.com''), (''iat'', JNum 5)]"
        "Some (''Bearer '' @ ada_token)"] by blast
  ultimately show ?thesis using p m ada_auth [of JNull] by blast
qed

section \<open>What a signup returns and stores\<close>

text \<open>
  Claim C5. A signup answered with 201 returns a body with a token and a user object
  whose fields are exactly \<^verbatim>\<open>id\<close>, \<^verbatim>\<open>name\<close> and \<^verbatim>\<open>email\<close>; the token is signed from
  the id and the email alone, so the hash is nowhere in the response. The one row it adds
  holds, as its password, the text of the digest that \<^verbatim>\<open>bcrypt.hash\<close> made of the
  submitted password, which is not the submitted password as long as bcrypt never returns
  its input.
\<close>

theorem signup_public_fields_and_hash:
  assumes "signup L penv e d b = (d', res)" and "status res = 201"
  shows "\<exists>u. res = Response 201
             (JObj [(''token'', JStr (jwt_sign L [(''userId'', JNum (int (user_id u))),
                                                   (''email'', JStr (user_email u))]
                                               (jwt_secret penv) (now e))),
                    (''user'', JObj [(''id'', JNum (int (user_id u))),
                                     (''name'', JStr (user_name u)),
                                     (''email'', JStr (user_email u))])])
          \<and> rows d' = rows d @ [u]
          \<and> (\<exists>h. bcrypt_hash L (field b ''password'') 10 (entropy e) = Inr h
                 \<and> user_password u = digest_text h)
          \<and> (bcrypt_one_way L \<longrightarrow> JStr (user_password u) \<noteq> field b ''password'')"
proof -
  from signup_created [OF assms] obtain h n' em' u where
    c: "bcrypt_hash L (field b ''password'') 10 (entropy e) = Inr h
      \<and> u = \<lparr>user_id = Suc (seq d), user_name = n', user_email = em',
             user_password = digest_text h, created_at = now e\<rparr>
      \<and> d' = d\<lparr>seq := Suc (seq d), rows := rows d @ [u]\<rparr>
      \<and> res = Response 201 (session_body (issue_token L penv e u) u)"
    by (elim exE conjE) (rule that, simp)
  then have "bcrypt_one_way L \<longrightarrow> JStr (digest_text h) \<noteq> field b ''password''"
    by (auto simp: bcrypt_one_way_def)
  with c show ?thesis
    by (intro exI [of _ u]) (simp add: session_body_def issue_token_def token_payload_def)
qed

theorem signup_public_fields_and_hash_witness:
  "signup ref_libs dev_env (env_at 5 JNull) empty_db ada_body
      = (ada_db, Response 201 (session_body ada_token ada_row))
   \<and> status (Response 201 (session_body ada_token ada_row)) = 201
   \<and> bcrypt_one_way ref_libs
   \<and> (\<exists>u. Response 201 (session_body ada_token ada_row) = Response 201
             (JObj [(''token'', JStr (jwt_sign ref_libs [(''userId'', JNum (int (user_id u))),
                                                   (''email'', JStr (user_email u))]
                                               (jwt_secret dev_env) (now (env_at 5 JNull)))),
                    (''user'', JObj [(''id'', JNum (int (user_id u))),
                                     (''name'', JStr (user_name u)),
                                     (''email'', JStr (user_email u))])])
          \<and> rows ada_db = rows empty_db @ [u]
          \<and> (\<exists>h. bcrypt_hash ref_libs (field ada_body ''password'') 10 (entropy (env_at 5 JNull)) = Inr h
                 \<and> user_password u = digest_text h)
          \<and> JStr (user_password u) \<noteq> field ada_body ''password'')"
proof -
  have s: "status (Response 201 (session_body ada_token ada_row)) = 201" by simp
  from signup_public_fields_and_hash [OF ada_signup s] ref_bcrypt_one_way ada_signup s
  show ?thesis by blast
qed


section \<open>The claims of an issued token\<close>

text \<open>
  Claim C6. The token in a 201 signup response or a 200 login response is signed from the
  payload \<^verbatim>\<open>{userId, email}\<close> of a stored user, with the two-argument \<^verbatim>\<open>jwt.sign\<close>: the
  payload has no \<^verbatim>\<open>exp\<close> field and no expiry option is passed. So, with a library that
  checks nothing but the signature on such a token, the token passes the auth middleware
  whatever the clock says, and its decoded claims are \<^verbatim>\<open>userId\<close>, \<^verbatim>\<open>email\<close> and the
  \<^verbatim>\<open>iat\<close> that signing added, with no \<^verbatim>\<open>exp\<close>.
\<close>

theorem issued_token_has_no_expiry:
  assumes "(signup L penv e d b = (d', res) \<and> status res = 201)
         \<or> (login L penv e d b = res \<and> status res = 200)"
  shows "\<exists>u tok. body res = session_body tok u
      \<and> tok = jwt_sign L [(''userId'', JNum (int (user_id u))), (''email'', JStr (user_email u))]
                 (jwt_secret penv) (now e)
      \<and> (jwt_contract L \<longrightarrow>
           (\<forall>e'. \<exists>claims. verifyToken L penv e' (Some (''Bearer '' @ tok)) = Inr claims
               \<and> map fst claims = [''userId'', ''email'', ''iat'']
               \<and> field claims ''exp'' = JUndefined))"
proof -
  from assms obtain u where res: "res = Response (status res) (session_body (issue_token L penv e u) u)"
  proof
    assume a: "signup L penv e d b = (d', res) \<and> status res = 201"
    then have "\<exists>u. res = Response 201 (session_body (issue_token L penv e u) u)"
      using signup_created [of L penv e d b d' res] by blast
    with a that show thesis by auto
  next
    assume a: "login L penv e d b = res \<and> status res = 200"
    then have "\<exists>u. res = Response 200 (session_body (issue_token L penv e u) u)"
      using login_ok [of L penv e d b res] by blast
    with a that show thesis by auto
  qed
  have keys: "map fst (token_payload u @ [(''iat'', JNum (int t))]) = [''userId'', ''email'', ''iat'']
      \<and> field (token_payload u @ [(''iat'', JNum (int t))]) ''exp'' = JUndefined" for t
    by (simp add: token_payload_def field_def)
  have b: "body res = session_body (issue_token L penv e u) u"
    by (subst res) simp
  have "jwt_contract L \<longrightarrow>
           (\<forall>e'. \<exists>claims. verifyToken L penv e' (Some (''Bearer '' @ issue_token L penv e u)) = Inr claims
               \<and> map fst claims = [''userId'', ''email'', ''iat'']
               \<and> field claims ''exp'' = JUndefined)"
    using verifyToken_issued [of L penv _ e u] keys by simp
  with b show ?thesis
    by (intro exI [of _ u] exI [of _ "issue_token L penv e u"])
       (simp add: issue_token_def token_payload_def)
qed

theorem issued_token_has_no_expiry_witness:
  "signup ref_libs dev_env (env_at 5 JNull) empty_db ada_body
      = (ada_db, Response 201 (session_body ada_token ada_row))
   \<and> status (Response 201 (session_body ada_token ada_row)) = 201
   \<and> jwt_contract ref_libs
   \<and> (\<exists>u tok. body (Response 201 (session_body ada_token ada_row)) = session_body tok u
      \<and> tok = jwt_sign ref_libs [(''userId'', JNum (int (user_id u))), (''email'', JStr (user_email u))]
                 (jwt_secret dev_env) (now (env_at 5 JNull))
      \<and> (\<forall>e'. \<exists>claims. verifyToken ref_libs dev_env e' (Some (''Bearer '' @ tok)) = Inr claims
               \<and> map fst claims = [''userId'', ''email'', ''iat'']
               \<and> field claims ''exp'' = JUndefined))"
proof -
  have s: "signup ref_libs dev_env (env_at 5 JNull) empty_db ada_body
      = (ada_db, Response 201 (session_body ada_token ada_row))
     \<and> status (Response 201 (session_body ada_token ada_row)) = 201"
    using ada_signup by simp
  from issued_token_has_no_expiry [of ref_libs dev_env "env_at 5 JNull" empty_db ada_body ada_db
      "Response 201 (session_body ada_token ada_row)", OF disjI1, OF s] ref_jwt_contract s
  show ?thesis by blast
qed

section \<open>Signup, login and verification\<close>

text \<open>
  Claim C1, as amended. A signup answered with 201, whose email has at most 255
  characters and so is stored as it was submitted, stores a row; a login at any later
  state of the table (the table only grows), with the same email and password and a
  reachable database, is answered with 200 and the public fields of that same row. The
  token of the login, and the token of the signup, presented as \<^verbatim>\<open>Bearer <token>\<close>, pass
  the auth middleware at any time, and the decoded claims hold the id and the email of the
  row. The libraries are assumed to verify what they hash and sign.
\<close>

theorem signup_login_token_roundtrip:
  assumes "bcrypt_contract L" and "jwt_contract L"
    and "signup L penv e1 d0 b1 = (d1, res1)" and "status res1 = 201"
    and "length (pg_prepare L (field b1 ''email'')) \<le> 255"
    and "rows d2 = rows d1 @ later"
    and "field b2 ''email'' = field b1 ''email''"
    and "field b2 ''password'' = field b1 ''password''"
    and "db_fault e2 = None"
  shows "\<exists>u tok1 tok2.
      res1 = Response 201 (session_body tok1 u)
    \<and> login L penv e2 d2 b2 = Response 200 (session_body tok2 u)
    \<and> (\<forall>e3. \<exists>claims. verifyToken L penv e3 (Some (''Bearer '' @ tok2)) = Inr claims
           \<and> field claims ''userId'' = JNum (int (user_id u))
           \<and> field claims ''email'' = JStr (user_email u))
    \<and> (\<forall>e3. \<exists>claims. verifyToken L penv e3 (Some (''Bearer '' @ tok1)) = Inr claims
           \<and> field claims ''userId'' = JNum (int (user_id u))
           \<and> field claims ''email'' = JStr (user_email u))"
proof -
  from signup_created [OF assms(3,4)] obtain h n' em' u where
    c: "truthy (field b1 ''email'') \<and> truthy (field b1 ''password'')
      \<and> bcrypt_hash L (field b1 ''password'') 10 (entropy e1) = Inr h
      \<and> \<not> has_nul (pg_prepare L (field b1 ''email''))
      \<and> varchar255 (pg_prepare L (field b1 ''email'')) = Some em'
      \<and> em' \<notin> set (map user_email (rows d0))
      \<and> u = \<lparr>user_id = Suc (seq d0), user_name = n', user_email = em',
             user_password = digest_text h, created_at = now e1\<rparr>
      \<and> d1 = d0\<lparr>seq := Suc (seq d0), rows := rows d0 @ [u]\<rparr>
      \<and> res1 = Response 201 (session_body (issue_token L penv e1 u) u)"
    by (elim exE conjE) (rule that, simp)
  from c assms(5) have em: "em' = pg_prepare L (field b1 ''email'')"
    by (simp add: varchar255_short)
  from c have h: "bcrypt_hash L (field b2 ''password'') 10 (entropy e1) = Inr h"
    and pw: "user_password u = digest_text h"
    using assms(8) by simp_all
  from assms(1) h have "bcrypt_compare L (field b2 ''password'') (digest_text h) = Inr True"
    unfolding bcrypt_contract_def by blast
  with pw have cmp: "bcrypt_compare L (field b2 ''password'') (user_password u) = Inr True"
    by simp
  have rows2: "rows d2 = rows d0 @ u # later"
    using assms(6) c by simp
  have lg: "login L penv e2 d2 b2 = Response 200 (session_body (issue_token L penv e2 u) u)"
    by (rule login_found [OF _ _ assms(9) _ _ rows2 _ cmp])
       (use c em assms(7,8) in simp_all)
  have claims: "field (token_payload u @ [(''iat'', JNum (int t))]) ''userId'' = JNum (int (user_id u))
     \<and> field (token_payload u @ [(''iat'', JNum (int t))]) ''email'' = JStr (user_email u)" for t
    by (simp add: token_payload_def field_def)
  from c have r1: "res1 = Response 201 (session_body (issue_token L penv e1 u) u)"
    by simp
  show ?thesis
  proof (intro exI conjI allI)
    show "res1 = Response 201 (session_body (issue_token L penv e1 u) u)" by (rule r1)
    show "login L penv e2 d2 b2 = Response 200 (session_body (issue_token L penv e2 u) u)" by (rule lg)
    show "verifyToken L penv e3 (Some (''Bearer '' @ issue_token L penv e2 u))
        = Inr (token_payload u @ [(''iat'', JNum (int (now e2)))])" for e3
      by (rule verifyToken_issued [OF assms(2)])
    show "verifyToken L penv e3 (Some (''Bearer '' @ issue_token L penv e1 u))
        = Inr (token_payload u @ [(''iat'', JNum (int (now e1)))])" for e3
      by (rule verifyToken_issued [OF assms(2)])
  qed (simp_all add: claims)
qed

theorem signup_login_token_roundtrip_witness:
  "bcrypt_contract ref_libs \<and> jwt_contract ref_libs
   \<and> signup ref_libs dev_env (env_at 5 JNull) empty_db ada_body
        = (ada_db, Response 201 (session_body ada_token ada_row))
   \<and> status (Response 201 (session_body ada_token ada_row)) = 201
   \<and> length (pg_prepare ref_libs (field ada_body ''email'')) \<le> 255
   \<and> db_fault (env_at 9 JNull) = None
   \<and> (\<exists>u tok1 tok2.
        Response 201 (session_body ada_token ada_row) = Response 201 (session_body tok1 u)
      \<and> login ref_libs dev_env (env_at 9 JNull) ada_db ada_body = Response 200 (session_body tok2 u)
      \<and> (\<forall>e3. \<exists>claims. verifyToken ref_libs dev_env e3 (Some (''Bearer '' @ tok2)) = Inr claims
             \<and> field claims ''userId'' = JNum (int (user_id u))
             \<and> field claims ''email'' = JStr (user_email u))
      \<and> (\<forall>e3. \<exists>claims. verifyToken ref_libs dev_env e3 (Some (''Bearer '' @ tok1)) = Inr claims
             \<and> field claims ''userId'' = JNum (int (user_id u))
             \<and> field claims ''email'' = JStr (user_email u)))"
proof -
  have f: "db_fault (env_at 9 JNull) = None" by (simp add: env_at_def)
  have l: "length (pg_prepare ref_libs (field ada_body ''email'')) \<le> 255"
    by (simp add: ada_body_def field_def ref_libs_def ref_prepare_def)
  have "\<exists>u tok1 tok2.
        Response 201 (session_body ada_token ada_row) = Response 201 (session_body tok1 u)
      \<and> login ref_libs dev_env (env_at 9 JNull) ada_db ada_body = Response 200 (session_body tok2 u)
      \<and> (\<forall>e3. \<exists>claims. verifyToken ref_libs dev_env e3 (Some (''Bearer '' @ tok2)) = Inr claims
             \<and> field claims ''userId'' = JNum (int (user_id u))
             \<and> field claims ''email'' = JStr (user_email u))
      \<and> (\<forall>e3. \<exists>claims. verifyToken ref_libs dev_env e3 (Some (''Bearer '' @ tok1)) = Inr claims
             \<and> field claims ''userId'' = JNum (int (user_id u))
             \<and> field claims ''email'' = JStr (user_email u))"
    by (rule signup_login_token_roundtrip [OF ref_bcrypt_contract ref_jwt_contract ada_signup _ l _ _ _ f,
          where later = "[]" and ?b2.0 = ada_body]) simp_all
  with ref_bcrypt_contract ref_jwt_contract ada_signup f l show ?thesis by simp
qed

text \<open>
  Claim C1 as it was stated fails. Eve signs up on the empty table with an email of 255
  letters and one space: the signup is answered with 201 and the email is stored without
  the space. Her login with the email and password she signed up with finds no row and
  is answered with 401.
\<close>

theorem long_email_login_counterexample:
  "status (snd (signup ref_libs dev_env (env_at 5 JNull) empty_db long_body)) = 201
   \<and> map user_email (rows (fst (signup ref_libs dev_env (env_at 5 JNull) empty_db long_body)))
       = [replicate 255 CHR ''x'']
   \<and> login ref_libs dev_env (env_at 9 JNull)
        (fst (signup ref_libs dev_env (env_at 5 JNull) empty_db long_body)) long_body
       = Response 401 (JObj [(''error'', JStr ''Invalid credentials'')])"
  by code_simp

section \<open>Login failures\<close>

text \<open>When no row has the email, and when \<^verbatim>\<open>bcrypt.compare\<close> resolves to false for the
  row found, the answer is the same 401. When \<^verbatim>\<open>bcrypt.compare\<close> throws for the row
  found, the \<^verbatim>\<open>catch\<close> answers with 500 and the message of the error.\<close>

lemma login_failure_same_response:
  assumes "truthy (field b ''email'')" and "truthy (field b ''password'')"
    and "db_fault e = None" and "\<not> has_nul (pg_prepare L (field b ''email''))"
    and "pg_prepare L (field b ''email'') \<notin> set (map user_email (rows d))
       \<or> (\<exists>u. find (\<lambda>r. user_email r = pg_prepare L (field b ''email'')) (rows d) = Some u
            \<and> bcrypt_compare L (field b ''password'') (user_password u) = Inr False)"
  shows "login L penv e d b = Response 401 (JObj [(''error'', JStr ''Invalid credentials'')])"
  using assms(5)
proof
  assume "pg_prepare L (field b ''email'') \<notin> set (map user_email (rows d))"
  then have "filter (\<lambda>r. user_email r = pg_prepare L (field b ''email'')) (rows d) = []"
    by (rule filter_none)
  with assms(1-4) show ?thesis
    by (simp add: login_def select_by_email_def error_body_def)
next
  assume "\<exists>u. find (\<lambda>r. user_email r = pg_prepare L (field b ''email'')) (rows d) = Some u
            \<and> bcrypt_compare L (field b ''password'') (user_password u) = Inr False"
  then obtain u where fu: "find (\<lambda>r. user_email r = pg_prepare L (field b ''email'')) (rows d) = Some u"
    and "bcrypt_compare L (field b ''password'') (user_password u) = Inr False"
    by auto
  moreover from find_filter [OF fu] obtain us
    where "filter (\<lambda>r. user_email r = pg_prepare L (field b ''email'')) (rows d) = u # us" ..
  ultimately show ?thesis using assms(1-4)
    by (simp add: login_def select_by_email_def error_body_def)
qed

lemma login_compare_throws:
  assumes "truthy (field b ''email'')" and "truthy (field b ''password'')"
    and "db_fault e = None" and "\<not> has_nul (pg_prepare L (field b ''email''))"
    and "find (\<lambda>r. user_email r = pg_prepare L (field b ''email'')) (rows d) = Some u"
    and "bcrypt_compare L (field b ''password'') (user_password u) = Inl err"
  shows "login L penv e d b = Response 500 (JObj [(''error'', JStr (err_message err))])"
proof -
  from find_filter [OF assms(5)] obtain us
    where "filter (\<lambda>r. user_email r = pg_prepare L (field b ''email'')) (rows d) = u # us" ..
  with assms show ?thesis
    by (simp add: login_def select_by_email_def error_body_def)
qed

text \<open>
  Claim C2. A login whose email and password are both present is to be answered with
  exactly 401 and \<^verbatim>\<open>{error: "Invalid credentials"}\<close> when the email is unknown and when the
  password does not match the stored hash, so that the two cannot be told apart. The
  handler does not do that for a password that is present and is not a string:
  \<^verbatim>\<open>bcrypt.compare\<close> throws on it, and it is only called when a row was found. With the
  number 12345 as the password, the login for Ada's email is answered with 500 and the
  message of bcryptjs on the table that holds Ada, and with 401 on the empty table.
\<close>

theorem login_number_password_leaks:
  "truthy (field number_body ''email'') \<and> truthy (field number_body ''password'')
   \<and> login ref_libs dev_env (env_at 9 JNull) ada_db number_body
       = Response 500 (JObj [(''error'', JStr ''Illegal arguments: number, string'')])
   \<and> login ref_libs dev_env (env_at 9 JNull) empty_db number_body
       = Response 401 (JObj [(''error'', JStr ''Invalid credentials'')])"
  by code_simp

theorem login_number_password_leaks_witness:
  "status (login ref_libs dev_env (env_at 9 JNull) ada_db number_body) = 500
   \<and> status (login ref_libs dev_env (env_at 9 JNull) empty_db number_body) = 401
   \<and> login ref_libs dev_env (env_at 9 JNull) ada_db number_body
       \<noteq> login ref_libs dev_env (env_at 9 JNull) empty_db number_body"
  using login_number_password_leaks by simp

section \<open>Signing up twice\<close>

text \<open>
  Claim C3, as amended. After a signup answered with 201, a second signup with the same
  email, at any later state of the table, whose name and password pass the presence
  check, whose password is hashed and whose name the column takes, made while the
  database is reachable and the id sequence has not drawn its last value 2147483647, is
  answered with 400 and \<^verbatim>\<open>{error: "Email already exists"}\<close>, and the table holds the same
  rows as before, the first user's row among them.
\<close>

theorem duplicate_signup_rejected:
  assumes "signup L penv e1 d0 b1 = (d1, res1)" and "status res1 = 201"
    and "rows d2 = rows d1 @ later"
    and "field b2 ''email'' = field b1 ''email''"
    and "truthy (field b2 ''name'')" and "truthy (field b2 ''password'')"
    and "bcrypt_hash L (field b2 ''password'') 10 (entropy e2) = Inr h2"
    and "\<not> has_nul (pg_prepare L (field b2 ''name''))"
    and "varchar255 (pg_prepare L (field b2 ''name'')) = Some n2"
    and "db_fault e2 = None"
    and "int (seq d2) < 2147483647"
  shows "\<exists>d3 u. signup L penv e2 d2 b2
            = (d3, Response 400 (JObj [(''error'', JStr ''Email already exists'')]))
          \<and> rows d1 = rows d0 @ [u] \<and> rows d3 = rows d0 @ u # later \<and> rows d3 = rows d2"
proof -
  from signup_created [OF assms(1,2)] obtain h n' em' u where
    c: "truthy (field b1 ''email'')
      \<and> \<not> has_nul (pg_prepare L (field b1 ''email''))
      \<and> varchar255 (pg_prepare L (field b1 ''email'')) = Some em'
      \<and> u = \<lparr>user_id = Suc (seq d0), user_name = n', user_email = em',
             user_password = digest_text h, created_at = now e1\<rparr>
      \<and> d1 = d0\<lparr>seq := Suc (seq d0), rows := rows d0 @ [u]\<rparr>"
    by (elim exE conjE) (rule that, simp)
  then have rows1: "rows d1 = rows d0 @ [u]" by simp
  have rows2: "rows d2 = rows d0 @ u # later" using assms(3) rows1 by simp
  from c have "user_email u = em'" by simp
  with rows2 have mem: "em' \<in> set (map user_email (rows d2))" by simp
  have t: "truthy (field b2 ''email'')" using c assms(4) by simp
  have "signup L penv e2 d2 b2
      = (d2\<lparr>seq := Suc (seq d2)\<rparr>, Response 400 (JObj [(''error'', JStr ''Email already exists'')]))"
    using assms(4,7-11) c mem
    by (simp add: signup_checked [OF assms(5) t assms(6)] insert_user_def Let_def
        varchar255_digest digest_no_nul signup_catch_def unique_violation_def error_body_def)
  then show ?thesis using rows1 rows2 by auto
qed

theorem duplicate_signup_rejected_witness:
  "signup ref_libs dev_env (env_at 5 JNull) empty_db ada_body
      = (ada_db, Response 201 (session_body ada_token ada_row))
   \<and> status (Response 201 (session_body ada_token ada_row)) = 201
   \<and> truthy (field ada_body ''name'') \<and> truthy (field ada_body ''password'')
   \<and> bcrypt_hash ref_libs (field ada_body ''password'') 10 (entropy (env_at 9 JNull))
       = Inr (ref_digest ''secret123'')
   \<and> \<not> has_nul (pg_prepare ref_libs (field ada_body ''name''))
   \<and> varchar255 (pg_prepare ref_libs (field ada_body ''name'')) = Some ''Ada''
   \<and> db_fault (env_at 9 JNull) = None
   \<and> int (seq ada_db) < 2147483647
   \<and> (\<exists>d3 u. signup ref_libs dev_env (env_at 9 JNull) ada_db ada_body
            = (d3, Response 400 (JObj [(''error'', JStr ''Email already exists'')]))
          \<and> rows ada_db = rows empty_db @ [u] \<and> rows d3 = rows empty_db @ u # [] \<and> rows d3 = rows ada_db)"
proof -
  have t: "truthy (field ada_body ''name'')" "truthy (field ada_body ''password'')"
    by (simp_all add: ada_body_def field_def)
  have h: "bcrypt_hash ref_libs (field ada_body ''password'') 10 (entropy (env_at 9 JNull))
       = Inr (ref_digest ''secret123'')"
    by (simp add: ada_body_def field_def ref_libs_def ref_hash_def)
  have n: "\<not> has_nul (pg_prepare ref_libs (field ada_body ''name''))"
    "varchar255 (pg_prepare ref_libs (field ada_body ''name'')) = Some ''Ada''"
    by (simp_all add: ada_body_def field_def ref_libs_def ref_prepare_def has_nul_def varchar255_def)
  have f: "db_fault (env_at 9 JNull) = None" by (simp add: env_at_def)
  have q: "int (seq ada_db) < 2147483647" by (simp add: ada_db_def)
  have s: "status (Response 201 (session_body ada_token ada_row)) = 201" by simp
  have "\<exists>d3 u. signup ref_libs dev_env (env_at 9 JNull) ada_db ada_body
            = (d3, Response 400 (JObj [(''error'', JStr ''Email already exists'')]))
          \<and> rows ada_db = rows empty_db @ [u] \<and> rows d3 = rows empty_db @ u # [] \<and> rows d3 = rows ada_db"
    by (rule duplicate_signup_rejected [OF ada_signup s _ _ t h n f q]) simp_all
  with ada_signup s t h n f q show ?thesis by blast
qed

text \<open>
  Claim C3 as it was stated fails. On a table whose sequence has one id left, Ada's signup
  is answered with 201 and takes the id 2147483647. The same signup again cannot draw an
  id: the error of the sequence is not a unique violation, and the answer is 500 with its
  message, not 400.
\<close>

theorem last_id_duplicate_counterexample:
  "status (snd (signup ref_libs dev_env (env_at 5 JNull) last_id_db ada_body)) = 201
   \<and> map user_id (rows (fst (signup ref_libs dev_env (env_at 5 JNull) last_id_db ada_body)))
       = [2147483647]
   \<and> snd (signup ref_libs dev_env (env_at 9 JNull)
        (fst (signup ref_libs dev_env (env_at 5 JNull) last_id_db ada_body)) ada_body)
       = Response 500 (JObj [(''error'',
           JStr ''nextval: reached maximum value of sequence \"users_id_seq\" (2147483647)'')])"
proof -
  have t: "truthy (field ada_body ''name'')" "truthy (field ada_body ''email'')"
    "truthy (field ada_body ''password'')"
    by (simp_all add: ada_body_def field_def)
  have p: "field ada_body ''name'' = JStr ''Ada''" "field ada_body ''email'' = JStr ''ada@x.com''"
    "field ada_body ''password'' = JStr ''secret123''"
    by (simp_all add: ada_body_def field_def)
  have g: "CHR 0x00 \<notin> set (digest_text (ref_digest ''secret123''))"
    "length (digest_text (ref_digest ''secret123'')) \<le> 255"
    using digest_no_nul [of "ref_digest ''secret123''"] by (simp_all add: has_nul_def digest_length)
  define u where "u = \<lparr>user_id = 2147483647, user_name = ''Ada'', user_email = ''ada@x.com'',
      user_password = digest_text (ref_digest ''secret123''), created_at = 5\<rparr>"
  have first: "signup ref_libs dev_env (env_at 5 JNull) last_id_db ada_body
      = (\<lparr>rows = [u], seq = 2147483647\<rparr>,
         Response 201 (session_body (issue_token ref_libs dev_env (env_at 5 JNull) u) u))"
    by (simp add: signup_checked [OF t] p ref_libs_def ref_hash_def ref_prepare_def insert_user_def
        env_at_def last_id_db_def has_nul_def varchar255_def g Let_def u_def)
  have second: "signup ref_libs dev_env (env_at 9 JNull) \<lparr>rows = [u], seq = 2147483647\<rparr> ada_body
      = (\<lparr>rows = [u], seq = 2147483647\<rparr>, Response 500 (JObj [(''error'',
           JStr ''nextval: reached maximum value of sequence \"users_id_seq\" (2147483647)'')]))"
    by (simp add: signup_checked [OF t] p ref_libs_def ref_hash_def ref_prepare_def insert_user_def
        env_at_def has_nul_def varchar255_def g signup_catch_def sequence_limit_def error_body_def)
  from first second show ?thesis by (simp add: u_def)
qed

section \<open>The Authorization header\<close>

lemma header_pieces:
  assumes "CHR '' '' \<in> set a"
  shows "\<exists>w tok rest. a = w @ '' '' @ tok @ rest \<and> CHR '' '' \<notin> set w \<and> CHR '' '' \<notin> set tok
           \<and> (rest = [] \<or> take 1 rest = '' '')"
proof -
  from split_list_first [OF assms] obtain w r where a: "a = w @ CHR '' '' # r" and w: "CHR '' '' \<notin> set w"
    by blast
  show ?thesis
  proof (cases "CHR '' '' \<in> set r")
    case False
    with a w have "a = w @ '' '' @ r @ [] \<and> CHR '' '' \<notin> set w \<and> CHR '' '' \<notin> set r
        \<and> ([] = [] \<or> take 1 [] = '' '')"
      by simp
    then show ?thesis by blast
  next
    case True
    from split_list_first [OF this] obtain tok r' where r: "r = tok @ CHR '' '' # r'"
      and tok: "CHR '' '' \<notin> set tok"
      by blast
    with a w have "a = w @ '' '' @ tok @ (CHR '' '' # r') \<and> CHR '' '' \<notin> set w \<and> CHR '' '' \<notin> set tok
        \<and> (CHR '' '' # r' = [] \<or> take 1 (CHR '' '' # r') = '' '')"
      by simp
    then show ?thesis by blast
  qed
qed

text \<open>
  Claim C8, as amended. The middleware answers 401 \<^verbatim>\<open>No token\<close> if and only if the
  header is absent or empty. For a present, non-empty header it verifies the second
  space-separated piece and looks at nothing else, neither the first word nor what
  follows a second space. A header without a space (a bare token, the word \<^verbatim>\<open>Bearer\<close>
  alone) has no second piece and is answered with 401 \<^verbatim>\<open>Invalid token\<close>, since the
  verifier rejects \<^verbatim>\<open>undefined\<close>. Every other header reads \<^verbatim>\<open><word> <token>\<close>, alone or
  followed by a space and anything; it is answered with 401 \<^verbatim>\<open>Invalid token\<close> exactly when
  the token fails verification, and passes with the decoded claims when it verifies,
  whatever the word is.
\<close>

theorem verifyToken_header_cases:
  "(verifyToken L penv e auth = Inl (Response 401 (JObj [(''error'', JStr ''No token'')]))
      \<longleftrightarrow> auth = None \<or> auth = Some [])
   \<and> (jwt_requires_token L \<and> a \<noteq> [] \<and> CHR '' '' \<notin> set a \<longrightarrow>
        verifyToken L penv e (Some a) = Inl (Response 401 (JObj [(''error'', JStr ''Invalid token'')])))
   \<and> (CHR '' '' \<notin> set w \<and> CHR '' '' \<notin> set tok \<and> (rest = [] \<or> take 1 rest = '' '') \<longrightarrow>
        verifyToken L penv e (Some (w @ '' '' @ tok @ rest))
          = (case jwt_verify L (JStr tok) (jwt_secret penv) (now e) of
               Inl err \<Rightarrow> Inl (Response 401 (JObj [(''error'', JStr ''Invalid token'')]))
             | Inr claims \<Rightarrow> Inr claims))
   \<and> (CHR '' '' \<in> set a \<longrightarrow>
        (\<exists>w tok rest. a = w @ '' '' @ tok @ rest \<and> CHR '' '' \<notin> set w \<and> CHR '' '' \<notin> set tok
           \<and> (rest = [] \<or> take 1 rest = '' '')))"
proof (intro conjI impI)
  show "verifyToken L penv e auth = Inl (Response 401 (JObj [(''error'', JStr ''No token'')]))
      \<longleftrightarrow> auth = None \<or> auth = Some []"
    by (auto simp: verifyToken_def error_body_def Let_def split: option.splits sum.splits)
next
  assume a: "jwt_requires_token L \<and> a \<noteq> [] \<and> CHR '' '' \<notin> set a"
  then have "index1 (split_on CHR '' '' a) = JUndefined"
    by (simp add: split_on_no_sep index1_def)
  moreover from a obtain err where "jwt_verify L JUndefined (jwt_secret penv) (now e) = Inl err"
    unfolding jwt_requires_token_def by blast
  ultimately show "verifyToken L penv e (Some a) = Inl (Response 401 (JObj [(''error'', JStr ''Invalid token'')]))"
    using a by (simp add: verifyToken_def error_body_def)
next
  assume "CHR '' '' \<notin> set w \<and> CHR '' '' \<notin> set tok \<and> (rest = [] \<or> take 1 rest = '' '')"
  then show "verifyToken L penv e (Some (w @ '' '' @ tok @ rest))
          = (case jwt_verify L (JStr tok) (jwt_secret penv) (now e) of
               Inl err \<Rightarrow> Inl (Response 401 (JObj [(''error'', JStr ''Invalid token'')]))
             | Inr claims \<Rightarrow> Inr claims)"
    using verifyToken_second_piece [of w tok rest L penv e]
    by (simp add: error_body_def split: sum.splits)
next
  assume "CHR '' '' \<in> set a"
  then show "\<exists>w tok rest. a = w @ '' '' @ tok @ rest \<and> CHR '' '' \<notin> set w \<and> CHR '' '' \<notin> set tok
           \<and> (rest = [] \<or> take 1 rest = '' '')"
    by (rule header_pieces)
qed

theorem verifyToken_header_cases_witness:
  "jwt_requires_token ref_libs \<and> ''Bearer'' \<noteq> [] \<and> CHR '' '' \<notin> set ''Bearer''
   \<and> verifyToken ref_libs dev_env (env_at 9 JNull) (Some ''Bearer'')
       = Inl (Response 401 (JObj [(''error'', JStr ''Invalid token'')]))
   \<and> CHR '' '' \<notin> set ''Token'' \<and> CHR '' '' \<notin> set ada_token
   \<and> ('' extra'' = [] \<or> take 1 '' extra'' = '' '')
   \<and> verifyToken ref_libs dev_env (env_at 9 JNull) (Some (''Token'' @ '' '' @ ada_token @ '' extra''))
       = Inr [(''userId'', JNum 1), (''email'', JStr ''ada@x.com''), (''iat'', JNum 5)]
   \<and> verifyToken ref_libs dev_env (env_at 9 JNull) (Some [])
       = Inl (Response 401 (JObj [(''error'', JStr ''No token'')]))
   \<and> CHR '' '' \<in> set ''a b c''
   \<and> (\<exists>w tok rest. ''a b c'' = w @ '' '' @ tok @ rest \<and> CHR '' '' \<notin> set w \<and> CHR '' '' \<notin> set tok
           \<and> (rest = [] \<or> take 1 rest = '' ''))"
proof -
  have b: "''Bearer'' \<noteq> [] \<and> CHR '' '' \<notin> set ''Bearer''" and t: "CHR '' '' \<notin> set ''Token''"
    and x: "'' extra'' = [] \<or> take 1 '' extra'' = '' ''" and y: "CHR '' '' \<in> set ''a b c''"
    by simp_all
  note c = verifyToken_header_cases [of ref_libs dev_env "env_at 9 JNull" "Some []" "''Bearer''"
      "''Token''" ada_token "'' extra''"]
  note c' = verifyToken_header_cases [of ref_libs dev_env "env_at 9 JNull" "Some []" "''a b c''"
      "''Token''" ada_token "'' extra''"]
  from c ref_jwt_requires_token b
  have 1: "verifyToken ref_libs dev_env (env_at 9 JNull) (Some ''Bearer'')
       = Inl (Response 401 (JObj [(''error'', JStr ''Invalid token'')]))"
    by blast
  from c t ada_token_no_space x
  have "verifyToken ref_libs dev_env (env_at 9 JNull) (Some (''Token'' @ '' '' @ ada_token @ '' extra''))
       = (case jwt_verify ref_libs (JStr ada_token) (jwt_secret dev_env) (now (env_at 9 JNull)) of
               Inl err \<Rightarrow> Inl (Response 401 (JObj [(''error'', JStr ''Invalid token'')]))
             | Inr claims \<Rightarrow> Inr claims)"
    by blast
  then have 2: "verifyToken ref_libs dev_env (env_at 9 JNull) (Some (''Token'' @ '' '' @ ada_token @ '' extra''))
       = Inr [(''userId'', JNum 1), (''email'', JStr ''ada@x.com''), (''iat'', JNum 5)]"
    by (simp only: ada_token_verifies sum.case)
  from c have 3: "verifyToken ref_libs dev_env (env_at 9 JNull) (Some [])
       = Inl (Response 401 (JObj [(''error'', JStr ''No token'')]))"
    by blast
  from c' y have 4: "\<exists>w tok rest. ''a b c'' = w @ '' '' @ tok @ rest \<and> CHR '' '' \<notin> set w \<and> CHR '' '' \<notin> set tok
           \<and> (rest = [] \<or> take 1 rest = '' '')"
    by blast
  from 1 2 3 4 ref_jwt_requires_token b t ada_token_no_space x y show ?thesis by blast
qed

text \<open>
  Claim C8 as it was stated fails: the header \<^verbatim>\<open>Basic <token>\<close>, with the token that Ada's
  signup returned, is not of the form \<^verbatim>\<open>Bearer <token>\<close>, and it is not answered with 401
  \<^verbatim>\<open>Invalid token\<close>: it passes the middleware with Ada's claims.
\<close>

theorem verifyToken_other_scheme_counterexample:
  "\<not> bearer_form (''Basic '' @ ada_token)
   \<and> verifyToken ref_libs dev_env (env_at 9 JNull) (Some (''Basic '' @ ada_token))
       = Inr [(''userId'', JNum 1), (''email'', JStr ''ada@x.com''), (''iat'', JNum 5)]
   \<and> verifyToken ref_libs dev_env (env_at 9 JNull) (Some (''Basic '' @ ada_token))
       \<noteq> Inl (Response 401 (JObj [(''error'', JStr ''Invalid token'')]))"
proof -
  have "\<not> bearer_form (''Basic '' @ ada_token)"
    by (simp add: bearer_form_def)
  moreover have "verifyToken ref_libs dev_env (env_at 9 JNull) (Some (''Basic '' @ ada_token))
       = Inr [(''userId'', JNum 1), (''email'', JStr ''ada@x.com''), (''iat'', JNum 5)]"
    by (simp add: verifyToken_def ada_token_def index1_def ref_libs_def ref_verify_def
      dev_env_def jwt_secret_def env_at_def)
  ultimately show ?thesis by simp
qed

end
